theory Spec2Isabelle
  imports Main
begin

section \<open>Python values and exceptions\<close>

text \<open>
  A raised Python exception is a value.  The handlers of the sources distinguish two
  classes only: \<^verbatim>\<open>except Exception\<close> catches instances of \<^verbatim>\<open>Exception\<close>, while a bare
  \<^verbatim>\<open>except:\<close> and \<^verbatim>\<open>except BaseException\<close> also catch the exceptions that derive from
  \<^verbatim>\<open>BaseException\<close> alone (\<^verbatim>\<open>SystemExit\<close>, \<^verbatim>\<open>KeyboardInterrupt\<close>, \<^verbatim>\<open>GeneratorExit\<close>).
  An exception of either class carries the text that \<^verbatim>\<open>str(e)\<close> returns.  An exception
  class can also define a \<^verbatim>\<open>__str__\<close> that raises: \<open>Unprintable b e\<close> is such an
  exception, an instance of \<^verbatim>\<open>Exception\<close> exactly when \<open>b\<close> holds, and \<^verbatim>\<open>str\<close> of it raises
  \<open>e\<close>.
\<close>

datatype exn = Exception string | BaseOnly string | Unprintable bool exn

text \<open>\<^verbatim>\<open>str(e)\<close>: the text, or the exception that \<^verbatim>\<open>__str__\<close> raises.\<close>

fun exn_str :: "exn \<Rightarrow> exn + string" where
  "exn_str (Exception s) = Inr s"
| "exn_str (BaseOnly s) = Inr s"
| "exn_str (Unprintable b e) = Inl e"

fun is_Exception :: "exn \<Rightarrow> bool" where
  "is_Exception (Exception _) = True"
| "is_Exception (BaseOnly _) = False"
| "is_Exception (Unprintable b e) = b"

text \<open>
  The values that matter here: \<^verbatim>\<open>None\<close>, booleans, integers, strings, and any other
  object, given by its class name and by what its \<^verbatim>\<open>__str__\<close> does (return a text or
  raise).
\<close>

datatype pyval = PyNone | PyBool bool | PyInt int | PyStr string | PyObject string "exn + string"

definition digit_char :: "nat \<Rightarrow> char" where
  "digit_char d = char_of (48 + d)"

function digits :: "nat \<Rightarrow> string" where
  "digits n = (if n < 10 then [digit_char n] else digits (n div 10) @ [digit_char (n mod 10)])"
  by pat_completeness auto
termination
  by (relation "measure id") auto

declare digits.simps [simp del]

text \<open>\<^verbatim>\<open>str(obj)\<close>.\<close>

fun py_str :: "pyval \<Rightarrow> exn + string" where
  "py_str PyNone = Inr ''None''"
| "py_str (PyBool b) = Inr (if b then ''True'' else ''False'')"
| "py_str (PyInt i) = Inr (if i < 0 then CHR ''-'' # digits (nat (- i)) else digits (nat i))"
| "py_str (PyStr s) = Inr s"
| "py_str (PyObject c r) = r"

section \<open>State.py: Context\<close>

text \<open>
  Dictionaries are mutable objects, so a \<^verbatim>\<open>Context\<close> holds references.  The store maps
  an address to the dictionary living there; \<open>free\<close> is the next unused address, and
  every allocation (\<^verbatim>\<open>{**a, **b}\<close>, \<^verbatim>\<open>{}\<close>, \<^verbatim>\<open>TargetVars()\<close>) takes it.
\<close>

type_synonym addr = nat
type_synonym 'v bindings = "string \<rightharpoonup> 'v"

record 'v heap =
  cells :: "addr \<Rightarrow> 'v bindings"
  free :: addr

definition alloc :: "'v bindings \<Rightarrow> 'v heap \<Rightarrow> addr \<times> 'v heap" where
  "alloc d h = (free h, h\<lparr>cells := (cells h)(free h := d), free := Suc (free h)\<rparr>)"

text \<open>
  The three attributes of a \<^verbatim>\<open>Context\<close>: \<^verbatim>\<open>context\<close>, \<^verbatim>\<open>prev\<close> and \<^verbatim>\<open>_items\<close>.
\<close>

record Context =
  ctx_context :: addr
  ctx_prev :: addr
  ctx_items :: addr

text \<open>
  \<^verbatim>\<open>Context.__init__(self, context=None, prev=None)\<close>.  \<^verbatim>\<open>TargetVars\<close> lives in
  \<^verbatim>\<open>pythonwhat.parsing\<close>: it is a mapping, falsy exactly when empty, and what its method
  \<^verbatim>\<open>defined_items()\<close> returns is the parameter \<open>defined_items\<close>.
\<close>

definition Context_init ::
  "('v bindings \<Rightarrow> 'v bindings) \<Rightarrow> addr option \<Rightarrow> addr option \<Rightarrow> 'v heap \<Rightarrow> Context \<times> 'v heap" where
  "Context_init defined_items context_arg prev_arg h =
     (let (c, h1) = (case context_arg of
                       Some a \<Rightarrow> if cells h a \<noteq> Map.empty then (a, h) else alloc Map.empty h
                     | None \<Rightarrow> alloc Map.empty h);
          (p, h2) = (case prev_arg of
                       Some a \<Rightarrow> if cells h1 a \<noteq> Map.empty then (a, h1) else alloc Map.empty h1
                     | None \<Rightarrow> alloc Map.empty h1);
          (i, h3) = alloc (cells h2 p ++ defined_items (cells h2 c)) h2
      in (\<lparr>ctx_context = c, ctx_prev = p, ctx_items = i\<rparr>, h3))"

text \<open>\<^verbatim>\<open>Context.update_ctx(self, new_ctx)\<close>.\<close>

definition update_ctx ::
  "('v bindings \<Rightarrow> 'v bindings) \<Rightarrow> Context \<Rightarrow> addr \<Rightarrow> 'v heap \<Rightarrow> Context \<times> 'v heap" where
  "update_ctx defined_items self new_ctx h =
     (let (upd_prev, h1) =
            alloc (cells h (ctx_prev self) ++ defined_items (cells h (ctx_context self))) h
      in Context_init defined_items (Some new_ctx) (Some upd_prev) h1)"

text \<open>\<^verbatim>\<open>Context.__getitem__\<close>: \<open>None\<close> is the \<^verbatim>\<open>KeyError\<close>.\<close>

definition getitem :: "'v heap \<Rightarrow> Context \<Rightarrow> string \<Rightarrow> 'v option" where
  "getitem h self x = cells h (ctx_items self) x"

text \<open>
  The bindings a Context has accumulated, as \<^verbatim>\<open>update_ctx\<close> reads them:
  \<^verbatim>\<open>{**self.prev, **self.context.defined_items()}\<close>.
\<close>

definition accumulated :: "('v bindings \<Rightarrow> 'v bindings) \<Rightarrow> 'v heap \<Rightarrow> Context \<Rightarrow> 'v bindings" where
  "accumulated defined_items h self =
     cells h (ctx_prev self) ++ defined_items (cells h (ctx_context self))"

text \<open>
  What \<^verbatim>\<open>__init__\<close> establishes: the three dictionaries exist and \<^verbatim>\<open>_items\<close> holds the
  accumulated bindings.
\<close>

definition wf_Context :: "('v bindings \<Rightarrow> 'v bindings) \<Rightarrow> 'v heap \<Rightarrow> Context \<Rightarrow> bool" where
  "wf_Context defined_items h self =
     (ctx_context self < free h \<and> ctx_prev self < free h \<and> ctx_items self < free h
      \<and> cells h (ctx_items self) = accumulated defined_items h self)"

text \<open>
  An instance: the base Context binds \<open>x\<close> to 1 and \<open>y\<close> to 2, the update binds \<open>y\<close> to 5
  and \<open>z\<close> to 7.
\<close>

definition h0 :: "pyval heap" where
  "h0 = \<lparr>cells = (\<lambda>_. Map.empty)
            (0 := [''x'' \<mapsto> PyInt 1, ''y'' \<mapsto> PyInt 2],
             2 := [''x'' \<mapsto> PyInt 1, ''y'' \<mapsto> PyInt 2],
             3 := [''y'' \<mapsto> PyInt 5, ''z'' \<mapsto> PyInt 7]),
          free = 4\<rparr>"

definition c0 :: Context where
  "c0 = \<lparr>ctx_context = 0, ctx_prev = 1, ctx_items = 2\<rparr>"


section \<open>State.py: State\<close>

text \<open>
  A syntax tree node is known by an identity and the source text it spans;
  \<^verbatim>\<open>wrap_in_module\<close> makes a \<^verbatim>\<open>Module\<close> node of a list of statements.  Every node is
  truthy.
\<close>

datatype ast = Node nat string | Module "ast list"

text \<open>An entry of the message trail: \<^verbatim>\<open>{"msg": ..., "kwargs": {...}}\<close>.\<close>

record message =
  msg :: string
  kwargs :: "pyval bindings"

text \<open>
  The attributes of a State.  Processes, the reporter and the token maps are objects
  known by their identity.  Four attributes are left out: \<^verbatim>\<open>ast_dispatcher\<close>,
  \<^verbatim>\<open>converters\<close>, \<^verbatim>\<open>manual_sigs\<close> and \<^verbatim>\<open>_parser_cache\<close>; \<^verbatim>\<open>__init__\<close> builds them from
  the other attributes and from tables that are not part of these sources, and
  \<^verbatim>\<open>_update\<close> copies them as it copies every attribute.
\<close>

record state_attrs =
  klass :: string
  student_code :: string
  solution_code :: string
  pre_exercise_code :: string
  student_tree_tokens :: nat
  solution_tree_tokens :: nat
  student_tree :: "ast option"
  solution_tree :: "ast option"
  pre_exercise_tree :: "ast option"
  student_process :: nat
  solution_process :: nat
  raw_student_output :: string
  reporter :: nat
  student_parts :: "(string \<times> ast) list option"
  solution_parts :: "(string \<times> ast) list option"
  messages :: "message list"
  force_diagnose :: bool
  student_context :: Context
  solution_context :: Context
  student_env :: Context
  solution_env :: Context
  highlight :: "ast option"
  highlighting_disabled :: "bool option"

datatype State = State (attrs: state_attrs) (parent_state: "State option")

text \<open>
  \<^verbatim>\<open>State.__init__\<close> as \<^verbatim>\<open>to_child\<close> calls it: every keyword that \<^verbatim>\<open>to_child\<close> passes is
  given, so no code is parsed.  A context or environment that is \<^verbatim>\<open>None\<close> becomes a new
  empty Context.  \<open>given\<close> carries the attributes set from the keywords; its contexts and
  its highlight are replaced by what \<^verbatim>\<open>__init__\<close> computes.
\<close>

definition State_init ::
  "(pyval bindings \<Rightarrow> pyval bindings) \<Rightarrow> state_attrs \<Rightarrow> Context option \<Rightarrow> Context option \<Rightarrow>
   Context option \<Rightarrow> Context option \<Rightarrow> ast option \<Rightarrow> State option \<Rightarrow> pyval heap \<Rightarrow>
   State \<times> pyval heap" where
  "State_init defined_items given student_context_arg solution_context_arg student_env_arg
       solution_env_arg highlight_arg parent h =
     (let (stu_c, h1) = (case student_context_arg of
                           None \<Rightarrow> Context_init defined_items None None h | Some c \<Rightarrow> (c, h));
          (sol_c, h2) = (case solution_context_arg of
                           None \<Rightarrow> Context_init defined_items None None h1 | Some c \<Rightarrow> (c, h1));
          (stu_e, h3) = (case student_env_arg of
                           None \<Rightarrow> Context_init defined_items None None h2 | Some c \<Rightarrow> (c, h2));
          (sol_e, h4) = (case solution_env_arg of
                           None \<Rightarrow> Context_init defined_items None None h3 | Some c \<Rightarrow> (c, h3));
          hl = (if highlight_arg = None \<and> parent \<noteq> None then student_tree given
                else highlight_arg)
      in (State (given\<lparr>student_context := stu_c, solution_context := sol_c,
                        student_env := stu_e, solution_env := sol_e, highlight := hl\<rparr>) parent,
          h4))"

text \<open>
  \<^verbatim>\<open>State._update(**kwargs)\<close> with the seven keywords of its only call: a shallow copy of
  the State with these attributes set.
\<close>

definition State_update ::
  "State \<Rightarrow> Context \<Rightarrow> Context \<Rightarrow> Context \<Rightarrow> Context \<Rightarrow> ast option \<Rightarrow> bool option \<Rightarrow>
   message list \<Rightarrow> State" where
  "State_update self stu_c sol_c stu_e sol_e hl hd_arg msgs =
     State ((attrs self)\<lparr>student_context := stu_c, solution_context := sol_c,
                          student_env := stu_e, solution_env := sol_e, highlight := hl,
                          highlighting_disabled := hd_arg, messages := msgs\<rparr>)
           (parent_state self)"

text \<open>
  The arguments of \<^verbatim>\<open>to_child\<close>.  A subtree is a node or a list of statements; a context
  or environment update is the address of a mapping; \<^verbatim>\<open>append_message\<close> is a dictionary
  or a text.  \<open>no_args\<close> holds the defaults of the signature.
\<close>

datatype subtree_arg = Tree ast | Stmts "ast list"

datatype append_arg = MsgDict message | MsgText string

record to_child_args =
  student_subtree :: "subtree_arg option"
  solution_subtree :: "subtree_arg option"
  student_context_upd :: "addr option"
  solution_context_upd :: "addr option"
  student_env_upd :: "addr option"
  solution_env_upd :: "addr option"
  student_parts_arg :: "(string \<times> ast) list option"
  solution_parts_arg :: "(string \<times> ast) list option"
  highlight_arg :: "ast option"
  highlighting_disabled_arg :: "bool option"
  append_message :: append_arg
  node_name :: string

definition no_args :: to_child_args where
  "no_args = \<lparr>student_subtree = None, solution_subtree = None, student_context_upd = None,
     solution_context_upd = None, student_env_upd = None, solution_env_upd = None,
     student_parts_arg = None, solution_parts_arg = None, highlight_arg = None,
     highlighting_disabled_arg = None, append_message = MsgText [], node_name = []\<rparr>"

fun wrap :: "subtree_arg option \<Rightarrow> ast option" where
  "wrap None = None"
| "wrap (Some (Tree t)) = Some t"
| "wrap (Some (Stmts ss)) = Some (Module ss)"

definition derive_ctx ::
  "(pyval bindings \<Rightarrow> pyval bindings) \<Rightarrow> Context \<Rightarrow> addr option \<Rightarrow> pyval heap \<Rightarrow>
   Context \<times> pyval heap" where
  "derive_ctx defined_items c upd h =
     (case upd of Some u \<Rightarrow> update_ctx defined_items c u h | None \<Rightarrow> (c, h))"

text \<open>
  \<^verbatim>\<open>State.to_child\<close>.  \<open>subclasses\<close> tells the keys of \<^verbatim>\<open>State.SUBCLASSES\<close> (those of
  \<^verbatim>\<open>parser_dict\<close>), \<open>get_text\<close> is \<^verbatim>\<open>ASTTokens.get_text\<close>.  A \<open>node_name\<close> that is not a
  key raises \<^verbatim>\<open>KeyError\<close>.
\<close>

definition to_child ::
  "(pyval bindings \<Rightarrow> pyval bindings) \<Rightarrow> (string \<Rightarrow> bool) \<Rightarrow> (nat \<Rightarrow> ast \<Rightarrow> string) \<Rightarrow>
   State \<Rightarrow> to_child_args \<Rightarrow> pyval heap \<Rightarrow> (exn + State) \<times> pyval heap" where
  "to_child defined_items subclasses get_text self a h =
     (let stu_sub = wrap (student_subtree a);
          sol_sub = wrap (solution_subtree a);
          (sol_c, h1) = derive_ctx defined_items (solution_context (attrs self))
                          (solution_context_upd a) h;
          (stu_c, h2) = derive_ctx defined_items (student_context (attrs self))
                          (student_context_upd a) h1;
          (sol_e, h3) = derive_ctx defined_items (solution_env (attrs self))
                          (solution_env_upd a) h2;
          (stu_e, h4) = derive_ctx defined_items (student_env (attrs self))
                          (student_env_upd a) h3;
          hd_new = (case highlighting_disabled_arg a of
                      None \<Rightarrow> highlighting_disabled (attrs self) | Some b \<Rightarrow> Some b);
          m = (case append_message a of MsgDict d \<Rightarrow> d
               | MsgText t \<Rightarrow> \<lparr>msg = t, kwargs = Map.empty\<rparr>);
          msgs = messages (attrs self) @ [m]
      in case (sol_sub, stu_sub) of
           (Some sol, Some stu) \<Rightarrow>
             if node_name a \<noteq> [] \<and> \<not> subclasses (node_name a)
             then (Inl (Exception (node_name a)), h4)
             else
               (let given = (attrs self)\<lparr>
                      klass := (if node_name a = [] then ''State'' else node_name a),
                      student_code := get_text (student_tree_tokens (attrs self)) stu,
                      solution_code := get_text (solution_tree_tokens (attrs self)) sol,
                      student_tree := Some stu,
                      solution_tree := Some sol,
                      student_parts := student_parts_arg a,
                      solution_parts := solution_parts_arg a,
                      highlighting_disabled := hd_new,
                      messages := msgs\<rparr>;
                    (child, h5) = State_init defined_items given (Some stu_c) (Some sol_c)
                                    (Some stu_e) (Some sol_e) (highlight_arg a) (Some self) h4
                in (Inr child, h5))
         | _ \<Rightarrow> (Inr (State_update self stu_c sol_c stu_e sol_e (highlight_arg a) hd_new msgs),
                 h4))"

subsection \<open>build_message\<close>

text \<open>\<^verbatim>\<open>s.replace("__JINJA__:", "")\<close>: every occurrence, left to right.\<close>

function strip_jinja :: "string \<Rightarrow> string" where
  "strip_jinja s =
     (if s = [] then []
      else if take 10 s = ''__JINJA__:'' then strip_jinja (drop 10 s)
      else hd s # strip_jinja (tl s))"
  by pat_completeness auto
termination
  by (relation "measure length") auto

declare strip_jinja.simps [simp del]

text \<open>
  What a template is rendered against: the entry's own parameters, and under
  \<^verbatim>\<open>parent\<close>, \<^verbatim>\<open>child\<close> and \<^verbatim>\<open>this\<close> the parameter dictionaries of the previous, the next
  and the current entry (\<^verbatim>\<open>None\<close> where \<^verbatim>\<open>{}.get("kwargs")\<close> finds nothing).  The entry's
  own parameters come last in the dictionary display, so they win on these three keys.
\<close>

datatype targ = Plain pyval | Params "pyval bindings option"

definition tmp_kwargs ::
  "pyval bindings option \<Rightarrow> message \<Rightarrow> pyval bindings option \<Rightarrow> targ bindings" where
  "tmp_kwargs prev_kw d next_kw =
     [''parent'' \<mapsto> Params prev_kw, ''child'' \<mapsto> Params next_kw,
      ''this'' \<mapsto> Params (Some (kwargs d))]
     ++ (\<lambda>k. map_option Plain (kwargs d k))"

text \<open>
  \<^verbatim>\<open>zip([{}, *msgs[:-1]], msgs, [*msgs[1:], {}])\<close>: each entry with the parameters of
  its neighbours.
\<close>

definition windows ::
  "message list \<Rightarrow> (pyval bindings option \<times> message \<times> pyval bindings option) list" where
  "windows msgs = zip (None # map (\<lambda>d. Some (kwargs d)) (butlast msgs))
                      (zip msgs (map (\<lambda>d. Some (kwargs d)) (tl msgs) @ [None]))"

text \<open>
  The loop of \<^verbatim>\<open>build_message\<close> over these triples.  \<open>render\<close> is
  \<^verbatim>\<open>Template(text).render(**tmp_kwargs)\<close> of jinja2, which returns the text or raises.
\<close>

fun format_msgs ::
  "(string \<Rightarrow> targ bindings \<Rightarrow> exn + string) \<Rightarrow>
   (pyval bindings option \<times> message \<times> pyval bindings option) list \<Rightarrow> string list \<Rightarrow>
   exn + string list" where
  "format_msgs render [] out_list = Inr out_list"
| "format_msgs render ((prev_kw, d, next_kw) # rest) out_list =
     (if msg d = [] then format_msgs render rest out_list
      else case render (strip_jinja (msg d)) (tmp_kwargs prev_kw d next_kw) of
             Inl e \<Rightarrow> Inl e
           | Inr out \<Rightarrow> format_msgs render rest (out_list @ [out]))"

text \<open>
  \<^verbatim>\<open>State.build_message(self, tail="", fmt_kwargs=None, append=True)\<close>; \<open>join_all\<close> is
  the argument \<^verbatim>\<open>append\<close>.  With \<^verbatim>\<open>append=False\<close> and nothing rendered, \<^verbatim>\<open>out_list[-1]\<close>
  raises \<^verbatim>\<open>IndexError\<close>.
\<close>

definition build_message ::
  "(string \<Rightarrow> targ bindings \<Rightarrow> exn + string) \<Rightarrow> State \<Rightarrow> string option \<Rightarrow>
   pyval bindings option \<Rightarrow> bool \<Rightarrow> exn + string" where
  "build_message render self tail fmt_kwargs join_all =
     (let fmt = (case fmt_kwargs of None \<Rightarrow> Map.empty | Some k \<Rightarrow> k);
          msgs = messages (attrs self)
                 @ [\<lparr>msg = (case tail of None \<Rightarrow> [] | Some t \<Rightarrow> t), kwargs = fmt\<rparr>]
      in case format_msgs render (windows msgs) [] of
           Inl e \<Rightarrow> Inl e
         | Inr out_list \<Rightarrow>
             (let kept = (if highlight (attrs self) \<noteq> None
                             \<and> highlighting_disabled (attrs self) \<noteq> Some True
                          then drop (length out_list - 3) out_list else out_list)
              in if join_all then Inr (concat kept)
                 else if kept = [] then Inl (Exception ''list index out of range'')
                 else Inr (last kept)))"

text \<open>
  The same in the words of the specification: entry \<open>i\<close> of the trail is rendered against the
  parameters of entries \<open>i - 1\<close>, \<open>i\<close> and \<open>i + 1\<close>; entries with an empty text are left
  out; the renderings are taken in trail order, up to the first that fails.
\<close>

definition render_entry ::
  "(string \<Rightarrow> targ bindings \<Rightarrow> exn + string) \<Rightarrow> message list \<Rightarrow> nat \<Rightarrow> exn + string" where
  "render_entry render msgs i =
     render (strip_jinja (msg (msgs ! i)))
       (tmp_kwargs (if i = 0 then None else Some (kwargs (msgs ! (i - 1))))
                   (msgs ! i)
                   (if Suc i < length msgs then Some (kwargs (msgs ! Suc i)) else None))"

fun collect :: "(exn + 'a) list \<Rightarrow> exn + 'a list" where
  "collect [] = Inr []"
| "collect (Inl e # rs) = Inl e"
| "collect (Inr x # rs) = (case collect rs of Inl e \<Rightarrow> Inl e | Inr xs \<Rightarrow> Inr (x # xs))"

definition rendered_trail ::
  "(string \<Rightarrow> targ bindings \<Rightarrow> exn + string) \<Rightarrow> message list \<Rightarrow> exn + string list" where
  "rendered_trail render msgs =
     collect (map (render_entry render msgs)
                  (filter (\<lambda>i. msg (msgs ! i) \<noteq> []) [0..<length msgs]))"

definition last_three :: "'a list \<Rightarrow> 'a list" where
  "last_three xs = drop (length xs - 3) xs"

definition trail_with_tail :: "State \<Rightarrow> string option \<Rightarrow> pyval bindings option \<Rightarrow> message list" where
  "trail_with_tail self tail fmt_kwargs =
     messages (attrs self)
     @ [\<lparr>msg = (case tail of None \<Rightarrow> [] | Some t \<Rightarrow> t),
         kwargs = (case fmt_kwargs of None \<Rightarrow> Map.empty | Some k \<Rightarrow> k)\<rparr>]"

subsection \<open>The attributes a no-op step leaves alone\<close>

definition same_other_attrs :: "State \<Rightarrow> State \<Rightarrow> bool" where
  "same_other_attrs s s' =
     (klass (attrs s') = klass (attrs s)
      \<and> student_code (attrs s') = student_code (attrs s)
      \<and> solution_code (attrs s') = solution_code (attrs s)
      \<and> pre_exercise_code (attrs s') = pre_exercise_code (attrs s)
      \<and> student_tree_tokens (attrs s') = student_tree_tokens (attrs s)
      \<and> solution_tree_tokens (attrs s') = solution_tree_tokens (attrs s)
      \<and> student_tree (attrs s') = student_tree (attrs s)
      \<and> solution_tree (attrs s') = solution_tree (attrs s)
      \<and> pre_exercise_tree (attrs s') = pre_exercise_tree (attrs s)
      \<and> student_process (attrs s') = student_process (attrs s)
      \<and> solution_process (attrs s') = solution_process (attrs s)
      \<and> raw_student_output (attrs s') = raw_student_output (attrs s)
      \<and> reporter (attrs s') = reporter (attrs s)
      \<and> student_parts (attrs s') = student_parts (attrs s)
      \<and> solution_parts (attrs s') = solution_parts (attrs s)
      \<and> force_diagnose (attrs s') = force_diagnose (attrs s)
      \<and> parent_state s' = parent_state s)"

text \<open>The trail entry that \<^verbatim>\<open>to_child\<close> makes of its \<^verbatim>\<open>append_message\<close> argument.\<close>

definition appended :: "append_arg \<Rightarrow> message" where
  "appended m = (case m of MsgDict d \<Rightarrow> d | MsgText t \<Rightarrow> \<lparr>msg = t, kwargs = Map.empty\<rparr>)"

definition render_window ::
  "(string \<Rightarrow> targ bindings \<Rightarrow> exn + string) \<Rightarrow>
   pyval bindings option \<times> message \<times> pyval bindings option \<Rightarrow> exn + string" where
  "render_window render w =
     (case w of (p, d, n) \<Rightarrow> render (strip_jinja (msg d)) (tmp_kwargs p d n))"

subsection \<open>Example states\<close>

text \<open>A renderer that returns the template text as it is.\<close>

definition echo :: "string \<Rightarrow> targ bindings \<Rightarrow> exn + string" where
  "echo t k = Inr t"

definition s0 :: State where
  "s0 = State \<lparr>klass = ''State'', student_code = ''x = 1'', solution_code = ''x = 2'',
      pre_exercise_code = [], student_tree_tokens = 0, solution_tree_tokens = 1,
      student_tree = Some (Node 0 ''x = 1''), solution_tree = Some (Node 1 ''x = 2''),
      pre_exercise_tree = Some (Module []), student_process = 0, solution_process = 1,
      raw_student_output = [], reporter = 0, student_parts = None, solution_parts = None,
      messages = [\<lparr>msg = ''a'', kwargs = Map.empty\<rparr>, \<lparr>msg = [], kwargs = Map.empty\<rparr>,
                  \<lparr>msg = ''b'', kwargs = Map.empty\<rparr>,
                  \<lparr>msg = ''__JINJA__:c'', kwargs = Map.empty\<rparr>],
      force_diagnose = False, student_context = c0, solution_context = c0,
      student_env = c0, solution_env = c0,
      highlight = Some (Node 0 ''x = 1''), highlighting_disabled = None\<rparr> None"

definition s1 :: State where
  "s1 = State ((attrs s0)\<lparr>highlight := None\<rparr>) None"

text \<open>A call with a student subtree, no solution subtree, a context update and a message.\<close>

definition args1 :: to_child_args where
  "args1 = no_args\<lparr>student_subtree := Some (Tree (Node 5 ''y'')),
                     student_context_upd := Some 3,
                     append_message := MsgText ''hello''\<rparr>"

section \<open>tasks.py: the shell and its namespace\<close>

text \<open>
  A namespace maps names to values.  Running a piece of code in a namespace (\<^verbatim>\<open>exec\<close>)
  changes the namespace in place, may write to standard output, and either completes
  or raises; a piece of code is known by this effect.
\<close>

type_synonym ns = "pyval bindings"

record exec_result =
  raised :: "exn option"
  final_ns :: ns
  printed :: string

type_synonym code = "ns \<Rightarrow> exec_result"

text \<open>
  A context manager held in \<^verbatim>\<open>__context_obj__\<close>: its identity and what its
  \<^verbatim>\<open>__exit__(None, None, None)\<close> does (return, or raise the given exception).
\<close>

record context_obj =
  cm_id :: nat
  exit_raises :: "exn option"

text \<open>
  The shell's \<^verbatim>\<open>user_ns\<close>.  Its two reserved entries hold a namespace and a list of
  context managers, so they are fields of their own: \<open>env_layer\<close> is the entry
  \<^verbatim>\<open>__env__\<close>, \<open>context_objs\<close> the entry \<^verbatim>\<open>__context_obj__\<close>; \<open>None\<close> when the key is absent.
\<close>

record shell =
  user_ns :: ns
  env_layer :: "ns option"
  context_objs :: "context_obj list option"

definition get_env :: "shell \<Rightarrow> ns" where
  "get_env sh = (case env_layer sh of Some e \<Rightarrow> e | None \<Rightarrow> user_ns sh)"

text \<open>\<^verbatim>\<open>get_env(shell.user_ns)[k] = v\<close>.\<close>

definition set_env :: "shell \<Rightarrow> string \<Rightarrow> pyval \<Rightarrow> shell" where
  "set_env sh k v = (case env_layer sh of
                       Some e \<Rightarrow> sh\<lparr>env_layer := Some (e(k \<mapsto> v))\<rparr>
                     | None \<Rightarrow> sh\<lparr>user_ns := (user_ns sh)(k \<mapsto> v)\<rparr>)"

subsection \<open>TaskRunTreeStoreEnv\<close>

text \<open>
  The helpers that are not part of these sources, as parameters: \<^verbatim>\<open>utils.copy_env\<close>,
  \<^verbatim>\<open>copy.deepcopy\<close> and \<^verbatim>\<open>utils_env.set_context_vals\<close> (which updates the namespace it
  is given).  Each returns or raises.
\<close>

record env_utils =
  copy_env :: "ns \<Rightarrow> string list option \<Rightarrow> exn + ns"
  deepcopy :: "ns \<Rightarrow> exn + ns"
  set_context_vals :: "ns \<Rightarrow> string list \<Rightarrow> pyval list \<Rightarrow> exn + ns"

text \<open>The keyword arguments of the task.\<close>

record run_tree_task =
  keep_objs_in_env :: "string list option"
  extra_env :: "ns option"
  task_context :: "string list"
  task_context_vals :: "pyval list"
  pre_code :: "code option"
  tree :: code
  name :: string
  tempname :: string

text \<open>The three statements before the \<^verbatim>\<open>try\<close>: they build \<^verbatim>\<open>new_env\<close>.\<close>

definition new_env :: "env_utils \<Rightarrow> run_tree_task \<Rightarrow> shell \<Rightarrow> exn + ns" where
  "new_env u k sh =
     (case copy_env u (get_env sh) (keep_objs_in_env k) of
        Inl e \<Rightarrow> Inl e
      | Inr env1 \<Rightarrow>
          (case (case extra_env k of
                   None \<Rightarrow> Inr env1
                 | Some x \<Rightarrow> (case deepcopy u x of Inl e \<Rightarrow> Inl e
                              | Inr x' \<Rightarrow> Inr (env1 ++ x'))) of
             Inl e \<Rightarrow> Inl e
           | Inr env2 \<Rightarrow> set_context_vals u env2 (task_context k) (task_context_vals k)))"

text \<open>
  The body of the \<^verbatim>\<open>try\<close>: the setup code, when there is one, then the snippet.  The
  result is the namespace after both, or the first exception.
\<close>

definition run_snippet :: "run_tree_task \<Rightarrow> ns \<Rightarrow> exn + ns" where
  "run_snippet k env =
     (let r1 = (case pre_code k of
                  None \<Rightarrow> \<lparr>raised = None, final_ns = env, printed = []\<rparr>
                | Some c \<Rightarrow> c env)
      in case raised r1 of
           Some e \<Rightarrow> Inl e
         | None \<Rightarrow> (let r2 = tree k (final_ns r1)
                     in case raised r2 of Some e \<Rightarrow> Inl e | None \<Rightarrow> Inr (final_ns r2)))"

text \<open>
  \<^verbatim>\<open>TaskRunTreeStoreEnv.__call__\<close>.  The result is \<open>Inr None\<close> for \<^verbatim>\<open>None\<close>, \<open>Inr (Some s)\<close>
  for the string \<open>s\<close>, and \<open>Inl e\<close> when \<open>e\<close> leaves the call: the statements outside the
  \<^verbatim>\<open>try\<close> are the three of \<open>new_env\<close> and \<^verbatim>\<open>str(obj)\<close>.
\<close>

definition TaskRunTreeStoreEnv ::
  "env_utils \<Rightarrow> run_tree_task \<Rightarrow> shell \<Rightarrow> (exn + string option) \<times> shell" where
  "TaskRunTreeStoreEnv u k sh =
     (case new_env u k sh of
        Inl e \<Rightarrow> (Inl e, sh)
      | Inr env \<Rightarrow>
          (case run_snippet k env of
             Inl e \<Rightarrow> (Inr None, sh)
           | Inr env' \<Rightarrow>
               (case env' (name k) of
                  None \<Rightarrow> (Inr (Some ''undefined''), sh)
                | Some obj \<Rightarrow>
                    (let sh' = set_env sh (tempname k) obj
                     in case py_str obj of
                          Inl e \<Rightarrow> (Inl e, sh')
                        | Inr s \<Rightarrow> (Inr (Some s), sh')))))"

subsection \<open>Scoped environments: tear-down\<close>

text \<open>
  \<^verbatim>\<open>context_objs_exit\<close>: the loop, with \<open>got_error\<close> (\<open>None\<close> is \<^verbatim>\<open>False\<close>) and the list of
  the managers whose \<^verbatim>\<open>__exit__\<close> has been called so far.  \<^verbatim>\<open>except Exception\<close> lets an
  exception that is not an \<^verbatim>\<open>Exception\<close> leave the function.
\<close>

fun exit_loop ::
  "context_obj list \<Rightarrow> exn option \<Rightarrow> nat list \<Rightarrow> (exn + exn option) \<times> nat list" where
  "exit_loop [] got_error exited = (Inr got_error, exited)"
| "exit_loop (c # cs) got_error exited =
     (case exit_raises c of
        None \<Rightarrow> exit_loop cs got_error (exited @ [cm_id c])
      | Some e \<Rightarrow> if is_Exception e then exit_loop cs (Some e) (exited @ [cm_id c])
                  else (Inl e, exited @ [cm_id c]))"

definition context_objs_exit :: "context_obj list \<Rightarrow> (exn + exn option) \<times> nat list" where
  "context_objs_exit cs = exit_loop cs None []"

text \<open>
  \<^verbatim>\<open>TaskBreakDownNewEnv.__call__\<close>: the value returned (\<open>None\<close> is \<^verbatim>\<open>False\<close>), the shell,
  and the managers exited.  A missing key raises \<^verbatim>\<open>KeyError\<close> inside the \<^verbatim>\<open>try\<close>, and the
  bare \<^verbatim>\<open>except\<close> turns every exception into \<^verbatim>\<open>False\<close>.
\<close>

definition TaskBreakDownNewEnv :: "shell \<Rightarrow> exn option \<times> shell \<times> nat list" where
  "TaskBreakDownNewEnv sh =
     (case context_objs sh of
        None \<Rightarrow> (None, sh, [])
      | Some cs \<Rightarrow>
          (case context_objs_exit cs of
             (Inl e, exited) \<Rightarrow> (None, sh, exited)
           | (Inr res, exited) \<Rightarrow>
               (let sh1 = sh\<lparr>context_objs := None\<rparr>
                in case env_layer sh1 of
                     None \<Rightarrow> (None, sh1, exited)
                   | Some _ \<Rightarrow> (res, sh1\<lparr>env_layer := None\<rparr>, exited))))"

text \<open>In the words of the specification: the last error among the exits, if any.\<close>

definition last_error :: "context_obj list \<Rightarrow> exn option" where
  "last_error cs = (case filter (\<lambda>c. exit_raises c \<noteq> None) cs of
                      [] \<Rightarrow> None
                    | e # es \<Rightarrow> exit_raises (last (e # es)))"

subsection \<open>Example snippets and context managers\<close>

definition assign :: "string \<Rightarrow> pyval \<Rightarrow> code" where
  "assign x v env = \<lparr>raised = None, final_ns = env(x \<mapsto> v), printed = []\<rparr>"

definition pass_code :: code where
  "pass_code env = \<lparr>raised = None, final_ns = env, printed = []\<rparr>"

definition raising :: "exn \<Rightarrow> code" where
  "raising e env = \<lparr>raised = Some e, final_ns = env, printed = []\<rparr>"

definition task_for :: "code \<Rightarrow> run_tree_task" where
  "task_for c = \<lparr>keep_objs_in_env = None, extra_env = None, task_context = [],
                  task_context_vals = [], pre_code = None, tree = c, name = ''x'',
                  tempname = ''_evaluation_object_''\<rparr>"

definition u0 :: env_utils where
  "u0 = \<lparr>copy_env = (\<lambda>e keep. Inr e), deepcopy = (\<lambda>e. Inr e),
          set_context_vals = (\<lambda>e c v. Inr e)\<rparr>"

definition sh0 :: shell where
  "sh0 = \<lparr>user_ns = Map.empty, env_layer = None, context_objs = None\<rparr>"

text \<open>A shell in which \<open>x\<close> is already bound, and an object whose \<^verbatim>\<open>__str__\<close> raises.\<close>

definition sh_x :: shell where
  "sh_x = \<lparr>user_ns = [''x'' \<mapsto> PyInt 3], env_layer = None, context_objs = None\<rparr>"

definition mute :: pyval where
  "mute = PyObject ''Mute'' (Inl (Exception ''no text''))"

definition cs1 :: "context_obj list" where
  "cs1 = [\<lparr>cm_id = 1, exit_raises = Some (Exception ''first'')\<rparr>,
          \<lparr>cm_id = 2, exit_raises = None\<rparr>,
          \<lparr>cm_id = 3, exit_raises = Some (Exception ''last'')\<rparr>,
          \<lparr>cm_id = 4, exit_raises = None\<rparr>]"

definition cs2 :: "context_obj list" where
  "cs2 = [\<lparr>cm_id = 1, exit_raises = Some (BaseOnly ''SystemExit'')\<rparr>,
          \<lparr>cm_id = 2, exit_raises = None\<rparr>]"

section \<open>tasks.py: get_signature\<close>

text \<open>
  \<^verbatim>\<open>inspect.Signature(parameters)\<close> is the constructor; the manual table maps a name to
  such a list of parameters.  The \<^verbatim>\<open>signature\<close> argument is \<^verbatim>\<open>None\<close>, a string, or
  anything else, which is returned as it is.
\<close>

datatype 'p signature = Signature 'p

datatype 'p sig_arg = NoSignature | SigName string | SigGiven "'p signature"

text \<open>
  What the call needs of the running interpreter: \<^verbatim>\<open>eval(expr, env)\<close>,
  \<^verbatim>\<open>type(obj).__name__\<close> and \<^verbatim>\<open>inspect.signature(obj)\<close>.
\<close>

record ('env, 'obj, 'p) runtime =
  eval_py :: "string \<Rightarrow> 'env \<Rightarrow> exn + 'obj"
  type_name :: "'obj \<Rightarrow> string"
  inspect_signature :: "'obj \<Rightarrow> exn + 'p signature"

text \<open>\<^verbatim>\<open>s.split(".")\<close> and \<^verbatim>\<open>".".join(els)\<close>.\<close>

fun split_dot :: "string \<Rightarrow> string list" where
  "split_dot [] = [[]]"
| "split_dot (c # cs) =
     (if c = CHR ''.'' then [] # split_dot cs
      else (case split_dot cs of w # ws \<Rightarrow> (c # w) # ws | [] \<Rightarrow> [[c]]))"

fun join_dot :: "string list \<Rightarrow> string" where
  "join_dot [] = []"
| "join_dot [w] = w"
| "join_dot (w # ws) = w @ ''.'' @ join_dot ws"

text \<open>
  The inner \<^verbatim>\<open>try\<close>: the name with its first component replaced by the name of the type
  of the object it evaluates to.
\<close>

definition generic_name :: "('env, 'obj, 'p) runtime \<Rightarrow> string \<Rightarrow> 'env \<Rightarrow> exn + string" where
  "generic_name rt nm env =
     (case split_dot nm of
        [] \<Rightarrow> Inl (Exception ''signature error - cannot convert call'')
      | el # els \<Rightarrow>
          (case eval_py rt el env of
             Inl e \<Rightarrow> Inl (Exception ''signature error - cannot convert call'')
           | Inr obj \<Rightarrow> Inr (join_dot (type_name rt obj # els))))"

text \<open>The outer \<^verbatim>\<open>try\<close>: the two lookups in the manual table.\<close>

definition manual_signature ::
  "('env, 'obj, 'p) runtime \<Rightarrow> string \<Rightarrow> string \<Rightarrow> (string \<rightharpoonup> 'p) \<Rightarrow> 'env \<Rightarrow>
   exn + 'p signature" where
  "manual_signature rt nm mapped_name manual_sigs env =
     (case manual_sigs nm of
        Some p \<Rightarrow> Inr (Signature p)
      | None \<Rightarrow>
          if CHR ''.'' \<in> set mapped_name
          then (case generic_name rt nm env of
                  Inl e \<Rightarrow> Inl e
                | Inr g \<Rightarrow>
                    (case manual_sigs g of
                       Some p \<Rightarrow> Inr (Signature p)
                     | None \<Rightarrow> Inl (Exception (''signature error - '' @ g @ '' not in builtins''))))
          else Inl (Exception ''manual signature not found''))"

text \<open>\<^verbatim>\<open>get_signature(name, mapped_name, signature, manual_sigs, env)\<close>.\<close>

definition get_signature ::
  "('env, 'obj, 'p) runtime \<Rightarrow> string \<Rightarrow> string \<Rightarrow> 'p sig_arg \<Rightarrow> (string \<rightharpoonup> 'p) \<Rightarrow> 'env \<Rightarrow>
   exn + 'p signature" where
  "get_signature rt nm mapped_name sig manual_sigs env =
     (case sig of
        SigName k \<Rightarrow>
          (case manual_sigs k of
             Some p \<Rightarrow> Inr (Signature p)
           | None \<Rightarrow> Inl (Exception ''signature error - specified signature not found''))
      | SigGiven s \<Rightarrow> Inr s
      | NoSignature \<Rightarrow>
          (case eval_py rt mapped_name env of
             Inl e \<Rightarrow> Inl (Exception (mapped_name @ ''() was not found.''))
           | Inr f \<Rightarrow>
               (case manual_signature rt nm mapped_name manual_sigs env of
                  Inr s \<Rightarrow> Inr s
                | Inl e \<Rightarrow>
                    (case inspect_signature rt f of
                       Inl e' \<Rightarrow> Inl (Exception ''signature error - cannot determine signature'')
                     | Inr s \<Rightarrow> Inr s))))"

text \<open>\<^verbatim>\<open>TaskGetSignature.__call__\<close>: any exception becomes \<^verbatim>\<open>None\<close>.\<close>

definition TaskGetSignature ::
  "('env, 'obj, 'p) runtime \<Rightarrow> string \<Rightarrow> string \<Rightarrow> 'p sig_arg \<Rightarrow> (string \<rightharpoonup> 'p) \<Rightarrow> 'env \<Rightarrow>
   'p signature option" where
  "TaskGetSignature rt nm mapped_name sig manual_sigs env =
     (case get_signature rt nm mapped_name sig manual_sigs env of
        Inl e \<Rightarrow> None | Inr s \<Rightarrow> Some s)"

subsection \<open>An example interpreter\<close>

text \<open>
  Objects are numbers, the environment maps an expression to the object it evaluates
  to, every object is a \<^verbatim>\<open>list\<close> and introspection gives the one parameter \<open>self\<close>.
\<close>

definition rt0 :: "(string \<rightharpoonup> nat, nat, string list) runtime" where
  "rt0 = \<lparr>eval_py = (\<lambda>e env. case env e of Some ob \<Rightarrow> Inr ob
                                | None \<Rightarrow> Inl (Exception ''NameError'')),
           type_name = (\<lambda>ob. ''list''),
           inspect_signature = (\<lambda>ob. Inr (Signature [''self'']))\<rparr>"

definition manual0 :: "string \<rightharpoonup> string list" where
  "manual0 = [''f'' \<mapsto> [''a'', ''b''], ''list.append'' \<mapsto> [''object'']]"

section \<open>tasks.py: results with their representation\<close>

text \<open>What a process can answer to a task.\<close>

datatype answer =
    ANone
  | ABool bool
  | AStr string
  | ABytes string
  | AVal pyval
  | ACaptured string "string option"
  | ABackendErrors "string list"

text \<open>
  The tasks these wrappers send, with the keyword arguments that matter here: the
  \<^verbatim>\<open>name\<close> under which the value is staged, and the rest.
\<close>

datatype ('kw, 'conv) task =
    TaskGetResult string 'kw
  | TaskGetFunctionCallResult string 'kw
  | TaskGetTreeResult string 'kw
  | TaskGetClass string
  | TaskConvert string 'conv
  | TaskGetStream string

text \<open>
  \<^verbatim>\<open>process.executeTask(task)\<close> of whatever process the caller holds: it answers or
  raises, and the process moves on.
\<close>

type_synonym ('p, 'kw, 'conv) executor = "'p \<Rightarrow> ('kw, 'conv) task \<Rightarrow> (exn + answer) \<times> 'p"

text \<open>
  \<^verbatim>\<open>getRepresentation(name, process)\<close>; \<open>converters\<close> is the table of the active State.
  A class name that is a list of backend errors cannot be looked up in a dictionary:
  \<^verbatim>\<open>TypeError\<close>.
\<close>

definition getRepresentation ::
  "('p, 'kw, 'conv) executor \<Rightarrow> (string \<rightharpoonup> 'conv) \<Rightarrow> string \<Rightarrow> 'p \<Rightarrow> (exn + answer) \<times> 'p" where
  "getRepresentation executeTask converters nm p =
     (case executeTask p (TaskGetClass nm) of
        (Inl e, p1) \<Rightarrow> (Inl e, p1)
      | (Inr obj_class, p1) \<Rightarrow>
          (case obj_class of
             ABackendErrors es \<Rightarrow> (Inl (Exception ''unhashable type: list''), p1)
           | _ \<Rightarrow>
             (case (case obj_class of AStr c \<Rightarrow> converters c | _ \<Rightarrow> None) of
                Some conv \<Rightarrow>
                  (case executeTask p1 (TaskConvert nm conv) of
                     (Inl e, p2) \<Rightarrow> (Inl e, p2)
                   | (Inr stream, p2) \<Rightarrow>
                       (Inr (case stream of ABackendErrors es \<Rightarrow> ANone | _ \<Rightarrow> stream), p2))
              | None \<Rightarrow> executeTask p1 (TaskGetStream nm))))"

definition getResultInProcess ::
  "('p, 'kw, 'conv) executor \<Rightarrow> (string \<rightharpoonup> 'conv) \<Rightarrow> 'kw \<Rightarrow> 'p \<Rightarrow>
   (exn + answer \<times> answer) \<times> 'p" where
  "getResultInProcess executeTask converters kw p =
     (case executeTask p (TaskGetResult ''_evaluation_object_'' kw) of
        (Inl e, p1) \<Rightarrow> (Inl e, p1)
      | (Inr strrep, p1) \<Rightarrow>
          if strrep \<noteq> ANone
          then (case getRepresentation executeTask converters ''_evaluation_object_'' p1 of
                  (Inl e, p2) \<Rightarrow> (Inl e, p2)
                | (Inr bytestream, p2) \<Rightarrow> (Inr (bytestream, strrep), p2))
          else (Inr (ANone, strrep), p1))"

definition getFunctionCallResultInProcess ::
  "('p, 'kw, 'conv) executor \<Rightarrow> (string \<rightharpoonup> 'conv) \<Rightarrow> 'kw \<Rightarrow> 'p \<Rightarrow>
   (exn + answer \<times> answer) \<times> 'p" where
  "getFunctionCallResultInProcess executeTask converters kw p =
     (case executeTask p (TaskGetFunctionCallResult ''_evaluation_object_'' kw) of
        (Inl e, p1) \<Rightarrow> (Inl e, p1)
      | (Inr strrep, p1) \<Rightarrow>
          if strrep \<noteq> ANone
          then (case getRepresentation executeTask converters ''_evaluation_object_'' p1 of
                  (Inl e, p2) \<Rightarrow> (Inl e, p2)
                | (Inr bytestream, p2) \<Rightarrow> (Inr (bytestream, strrep), p2))
          else (Inr (ANone, strrep), p1))"

definition getTreeResultInProcess ::
  "('p, 'kw, 'conv) executor \<Rightarrow> (string \<rightharpoonup> 'conv) \<Rightarrow> 'kw \<Rightarrow> 'p \<Rightarrow>
   (exn + answer \<times> answer) \<times> 'p" where
  "getTreeResultInProcess executeTask converters kw p =
     (case executeTask p (TaskGetTreeResult ''_evaluation_object_'' kw) of
        (Inl e, p1) \<Rightarrow> (Inl e, p1)
      | (Inr strrep, p1) \<Rightarrow>
          if strrep \<noteq> ANone
          then (case getRepresentation executeTask converters ''_evaluation_object_'' p1 of
                  (Inl e, p2) \<Rightarrow> (Inl e, p2)
                | (Inr bytestream, p2) \<Rightarrow> (Inr (bytestream, strrep), p2))
          else (Inr (ANone, strrep), p1))"

text \<open>
  To speak of what is requested and when, a process is paired with the list of the
  tasks it has been sent.
\<close>

definition logged ::
  "('p, 'kw, 'conv) executor \<Rightarrow> ('p \<times> ('kw, 'conv) task list, 'kw, 'conv) executor" where
  "logged executeTask pl t =
     (case executeTask (fst pl) t of (r, p') \<Rightarrow> (r, (p', snd pl @ [t])))"

fun is_representation_request :: "('kw, 'conv) task \<Rightarrow> bool" where
  "is_representation_request (TaskGetClass n) = True"
| "is_representation_request (TaskConvert n c) = True"
| "is_representation_request (TaskGetStream n) = True"
| "is_representation_request _ = False"

text \<open>
  What the three wrappers have in common, given the task \<open>t0\<close> sent first: the pair
  returned has no byte stream when it has no string, and the tasks sent are \<open>t0\<close>,
  followed by requests for the representation only when \<open>t0\<close> was answered with
  something other than \<^verbatim>\<open>None\<close>.
\<close>

definition staged_protocol ::
  "('p, 'kw, 'conv) executor \<Rightarrow> 'p \<Rightarrow> ('kw, 'conv) task \<Rightarrow>
   (exn + answer \<times> answer) \<times> 'p \<times> ('kw, 'conv) task list \<Rightarrow> bool" where
  "staged_protocol executeTask p t0 out =
     (case out of (res, p', sent) \<Rightarrow>
        (\<forall>bytestream strrep. res = Inr (bytestream, strrep) \<longrightarrow>
             fst (executeTask p t0) = Inr strrep
             \<and> (strrep = ANone \<longrightarrow> bytestream = ANone))
        \<and> (\<exists>rest. sent = t0 # rest
              \<and> (\<forall>t\<in>set rest. is_representation_request t)
              \<and> (rest \<noteq> [] \<longrightarrow> (\<exists>s. fst (executeTask p t0) = Inr s \<and> s \<noteq> ANone))))"

text \<open>
  An example process: it counts the tasks it has run; the first task is answered with
  the text \<^verbatim>\<open>5\<close> or with \<^verbatim>\<open>None\<close>, as its keyword argument says.
\<close>

definition ex0 :: "(nat, bool, unit) executor" where
  "ex0 p t = (case t of
      TaskGetResult n kw \<Rightarrow> (Inr (if kw then AStr ''5'' else ANone), Suc p)
    | TaskGetFunctionCallResult n kw \<Rightarrow> (Inr (if kw then AStr ''5'' else ANone), Suc p)
    | TaskGetTreeResult n kw \<Rightarrow> (Inr (if kw then AStr ''5'' else ANone), Suc p)
    | TaskGetClass n \<Rightarrow> (Inr (AStr ''builtins.int''), Suc p)
    | TaskConvert n c \<Rightarrow> (Inr (ABytes ''converted''), Suc p)
    | TaskGetStream n \<Rightarrow> (Inr (ABytes ''pickled''), Suc p))"


section \<open>local.py: the worker process\<close>

text \<open>
  What can be put on a worker's task queue: the shutdown task, whose call returns
  \<^verbatim>\<open>None\<close>, or any other task, known by what its call does to the shell: it answers or
  raises, and leaves the shell as it then is.
\<close>

datatype 'sh worker_task = TaskKillProcess | OtherTask "'sh \<Rightarrow> (exn + answer) \<times> 'sh"

fun call_task :: "'sh worker_task \<Rightarrow> 'sh \<Rightarrow> (exn + answer) \<times> 'sh" where
  "call_task TaskKillProcess sh = (Inr ANone, sh)"
| "call_task (OtherTask f) sh = f sh"

fun is_kill :: "'sh worker_task \<Rightarrow> bool" where
  "is_kill TaskKillProcess = True"
| "is_kill (OtherTask f) = False"

text \<open>
  \<^verbatim>\<open>with CaptureErrors(output): body\<close>.  When the body raises, \<^verbatim>\<open>__exit__\<close> appends the
  entry \<^verbatim>\<open>{"type": "backend-error", "payload": str(exception)}\<close> to \<open>output\<close> and returns
  \<^verbatim>\<open>True\<close>, which suppresses the exception, of whatever class it is.  \<open>output\<close> is the
  list of the payloads; the second component is the body's value when it completed.
  \<^verbatim>\<open>str(exception)\<close> is evaluated inside \<^verbatim>\<open>__exit__\<close>: when it raises, nothing is appended
  and that exception leaves the \<^verbatim>\<open>with\<close> statement.
\<close>

definition CaptureErrors :: "string list \<Rightarrow> exn + 'a \<Rightarrow> exn + string list \<times> 'a option" where
  "CaptureErrors output body =
     (case body of
        Inl e \<Rightarrow> (case exn_str e of
                    Inl e' \<Rightarrow> Inl e'
                  | Inr payload \<Rightarrow> Inr (output @ [payload], None))
      | Inr v \<Rightarrow> Inr (output, Some v))"

text \<open>
  \<^verbatim>\<open>Queue.put_nowait\<close>: both queues are made by \<^verbatim>\<open>Queue()\<close>, without a bound, so an item is
  always taken.
\<close>

definition put_nowait :: "'a \<Rightarrow> 'a list \<Rightarrow> exn + 'a list" where
  "put_nowait x q = Inr (q @ [x])"

text \<open>
  One turn of the \<^verbatim>\<open>while True\<close> loop of \<^verbatim>\<open>WorkerProcess.run\<close>, for the task that
  \<^verbatim>\<open>task_queue.get()\<close> returned: the shell and the result queue after it, or the
  exception that leaves the loop (from either \<^verbatim>\<open>with\<close> statement, or from the second
  \<^verbatim>\<open>put_nowait\<close>, which is unguarded).
\<close>

definition loop_body ::
  "'sh worker_task \<Rightarrow> 'sh \<Rightarrow> answer list \<Rightarrow> exn + 'sh \<times> answer list" where
  "loop_body next_task sh result_queue =
     (let (r, sh') = call_task next_task sh
      in case CaptureErrors [] r of
           Inl e \<Rightarrow> Inl e
         | Inr (output, v) \<Rightarrow>
             (let answer = (if length output > 0 then ABackendErrors output
                            else (case v of Some a \<Rightarrow> a | None \<Rightarrow> ANone))
              in case CaptureErrors [] (put_nowait answer result_queue) of
                   Inl e \<Rightarrow> Inl e
                 | Inr (output2, q) \<Rightarrow>
                     if length output2 > 0
                     then (case put_nowait (ABackendErrors output2) result_queue of
                             Inl e \<Rightarrow> Inl e
                           | Inr q' \<Rightarrow> Inr (sh', q'))
                     else Inr (sh', (case q of Some q' \<Rightarrow> q' | None \<Rightarrow> result_queue))))"

text \<open>
  \<^verbatim>\<open>WorkerProcess.run\<close> over the tasks that arrive on the task queue, in order.  The loop
  returns after the shutdown task; when the tasks run out before one, it waits in
  \<^verbatim>\<open>task_queue.get()\<close> and does not return; an exception that leaves the loop ends
  \<^verbatim>\<open>run\<close>, and with it the process.
\<close>

datatype status = Returned | Waiting | Crashed exn

fun run_loop :: "'sh \<Rightarrow> 'sh worker_task list \<Rightarrow> answer list \<Rightarrow> status \<times> 'sh \<times> answer list" where
  "run_loop sh [] result_queue = (Waiting, sh, result_queue)"
| "run_loop sh (next_task # tasks) result_queue =
     (case loop_body next_task sh result_queue of
        Inl e \<Rightarrow> (Crashed e, sh, result_queue)
      | Inr (sh', q) \<Rightarrow>
          if is_kill next_task then (Returned, sh', q) else run_loop sh' tasks q)"

definition WorkerProcess_run :: "'sh \<Rightarrow> 'sh worker_task list \<Rightarrow> status \<times> 'sh \<times> answer list" where
  "WorkerProcess_run get_shell tasks = run_loop get_shell tasks []"

text \<open>
  To state what the loop answers: the answer a task is due in a shell, or the exception
  that taking the text of its exception raises.
\<close>

definition reply :: "'sh worker_task \<Rightarrow> 'sh \<Rightarrow> exn + answer" where
  "reply t sh = (case fst (call_task t sh) of
                   Inl e \<Rightarrow> (case exn_str e of
                               Inl e' \<Rightarrow> Inl e'
                             | Inr payload \<Rightarrow> Inr (ABackendErrors [payload]))
                 | Inr a \<Rightarrow> Inr a)"

subsection \<open>Killing a worker\<close>

text \<open>
  The registry \<^verbatim>\<open>WorkerProcess.instances\<close> lists process objects, known by their
  identity, and the operating system knows which of them are alive.  The current
  directory and the directories that exist are used further down, as are the identity
  the next process object gets and the number of random numbers drawn so far.
\<close>

record world =
  cwd :: string
  dirs :: "string \<Rightarrow> bool"
  instances :: "nat list"
  alive :: "nat \<Rightarrow> bool"
  next_obj :: nat
  draws :: nat

text \<open>
  What a live process does when it is shut down is not decided by \<^verbatim>\<open>kill\<close>: it answers
  the shutdown task and is gone when \<^verbatim>\<open>join(timeout=3.0)\<close> returns, or it answers and is
  still alive then, or it never answers, and \<^verbatim>\<open>executeTask\<close> waits for ever.
\<close>

datatype fate = Dies | Survives | Hangs

text \<open>An operation returns, raises, or never returns.\<close>

datatype 'a outcome = Done 'a | Raised exn | Blocked

text \<open>\<^verbatim>\<open>WorkerProcess.kill\<close>; \<^verbatim>\<open>raise Exception\<close> raises an exception with an empty text.\<close>

definition kill :: "(nat \<Rightarrow> fate) \<Rightarrow> nat \<Rightarrow> world \<Rightarrow> unit outcome \<times> world" where
  "kill fate self w =
     (case (if alive w self
            then (case fate self of
                    Hangs \<Rightarrow> (Blocked, w)
                  | Dies \<Rightarrow> (Done (), w\<lparr>alive := (alive w)(self := False)\<rparr>)
                  | Survives \<Rightarrow> (Raised (Exception []), w))
            else (Done (), w)) of
        (Done u, w1) \<Rightarrow>
          (Done (), if self \<in> set (instances w1)
                    then w1\<lparr>instances := remove1 self (instances w1)\<rparr> else w1)
      | (r, w1) \<Rightarrow> (r, w1))"

text \<open>\<^verbatim>\<open>WorkerProcess.kill_all\<close>: the loop over a copy of the registry.\<close>

fun kill_each :: "(nat \<Rightarrow> fate) \<Rightarrow> nat list \<Rightarrow> world \<Rightarrow> unit outcome \<times> world" where
  "kill_each fate [] w = (Done (), w)"
| "kill_each fate (i # rest) w =
     (case kill fate i w of
        (Done u, w') \<Rightarrow> kill_each fate rest w'
      | (r, w') \<Rightarrow> (r, w'))"

definition kill_all :: "(nat \<Rightarrow> fate) \<Rightarrow> world \<Rightarrow> unit outcome \<times> world" where
  "kill_all fate w = kill_each fate (instances w) w"

text \<open>Example: one registered, live worker.\<close>

definition w0 :: world where
  "w0 = \<lparr>cwd = ''/home/repl'', dirs = (\<lambda>d. d = ''/home/repl'' \<or> d = ''/home/repl/solution''),
          instances = [7], alive = (\<lambda>i. i = 7), next_obj = 8, draws = 0\<rparr>"

text \<open>
  Example tasks on a shell that counts the calls: one answers, one raises, and one
  raises an exception whose \<^verbatim>\<open>__str__\<close> raises.
\<close>

definition boom_task :: "nat worker_task" where
  "boom_task = OtherTask (\<lambda>n. (Inl (Exception ''boom''), Suc n))"

definition mute_task :: "nat worker_task" where
  "mute_task = OtherTask (\<lambda>n. (Inl (Unprintable True (Exception ''no text'')), Suc n))"

definition ok_task :: "nat worker_task" where
  "ok_task = OtherTask (\<lambda>n. (Inr (AStr ''ok''), Suc n))"


section \<open>local.py: running an exercise\<close>

text \<open>
  \<open>py\<close> is the interpreter: the effect of a source text on a namespace.
  \<^verbatim>\<open>run_code(executor, code)\<close> with the \<^verbatim>\<open>run_code\<close> method of a \<^verbatim>\<open>StubShell\<close> as executor
  (\<^verbatim>\<open>exec(code, self.user_ns)\<close>): the pair \<^verbatim>\<open>(raw_output, error)\<close> and the namespace after the
  run.  \<^verbatim>\<open>except BaseException\<close> catches every exception; \<^verbatim>\<open>error = str(e)\<close> in the
  handler raises when \<^verbatim>\<open>str\<close> does.
\<close>

definition run_code ::
  "(string \<Rightarrow> code) \<Rightarrow> string \<Rightarrow> ns \<Rightarrow> (exn + string \<times> string option) \<times> ns" where
  "run_code py src user =
     (let r = py src user
      in ((case raised r of
             None \<Rightarrow> Inr (printed r, None)
           | Some e \<Rightarrow> (case exn_str e of
                         Inl e' \<Rightarrow> Inl e'
                       | Inr err \<Rightarrow> Inr ([], Some err))),
          final_ns r))"

text \<open>\<^verbatim>\<open>StubShell.__init__(init_code)\<close>: an exception of the initial code is not caught.\<close>

definition StubShell_init :: "(string \<Rightarrow> code) \<Rightarrow> string \<Rightarrow> exn + ns" where
  "StubShell_init py init_code =
     (if init_code = [] then Inr Map.empty
      else (let r = py init_code Map.empty
            in case raised r of Some e \<Rightarrow> Inl e | None \<Rightarrow> Inr (final_ns r)))"

text \<open>
  \<^verbatim>\<open>TaskCaptureOutput(code)\<close> as a task for a worker whose shell is a \<^verbatim>\<open>StubShell\<close>.
\<close>

definition TaskCaptureOutput :: "(string \<Rightarrow> code) \<Rightarrow> string \<Rightarrow> ns worker_task" where
  "TaskCaptureOutput py src =
     OtherTask (\<lambda>user. case run_code py src user of
                          (Inl e, user') \<Rightarrow> (Inl e, user')
                        | (Inr (out, err), user') \<Rightarrow> (Inr (ACaptured out err), user'))"

text \<open>
  \<^verbatim>\<open>executeTask\<close> on a started worker: the task is put on the task queue, the worker's
  loop runs it, and \<^verbatim>\<open>result_queue.get()\<close> takes the first answer; it waits for ever
  when none comes.
\<close>

definition executeTask :: "'sh worker_task \<Rightarrow> 'sh \<Rightarrow> (answer \<times> 'sh) outcome" where
  "executeTask t sh =
     (case loop_body t sh [] of
        Inl e \<Rightarrow> Blocked
      | Inr (sh', q) \<Rightarrow> (case q of [] \<Rightarrow> Blocked | a # rest \<Rightarrow> Done (a, sh')))"

text \<open>
  A process object as the callers see it: its class, its \<^verbatim>\<open>_identity[0]\<close>, the directory
  it was created in, the namespace of its shell after the tasks run so far, and its
  entry in the registry when it is a worker.
\<close>

datatype process_class = StubProcess | SimpleProcess | WorkerProcess

record process =
  process_class :: process_class
  identity :: nat
  started_in :: string
  proc_shell :: ns
  registered_as :: "nat option"

text \<open>
  \<^verbatim>\<open>(pid,) if pid else (random.randint(0, 1e12),)\<close>: \<open>randint\<close> gives the numbers drawn,
  in order.
\<close>

definition new_identity :: "(nat \<Rightarrow> nat) \<Rightarrow> nat option \<Rightarrow> world \<Rightarrow> nat \<times> world" where
  "new_identity randint pid w =
     (case pid of
        Some n \<Rightarrow> if n \<noteq> 0 then (n, w) else (randint (draws w), w\<lparr>draws := Suc (draws w)\<rparr>)
      | None \<Rightarrow> (randint (draws w), w\<lparr>draws := Suc (draws w)\<rparr>))"

text \<open>
  \<^verbatim>\<open>WorkerProcess.__init__\<close> followed by \<^verbatim>\<open>start()\<close>: the object is appended to the
  registry, gets its identity, and the process starts in the current directory.
\<close>

definition start_worker ::
  "process_class \<Rightarrow> (nat \<Rightarrow> nat) \<Rightarrow> nat option \<Rightarrow> ns \<Rightarrow> world \<Rightarrow> process \<times> world" where
  "start_worker cls randint pid get_shell w =
     (let ob = next_obj w;
          w1 = w\<lparr>instances := instances w @ [ob], next_obj := Suc ob\<rparr>;
          (ident, w2) = new_identity randint pid w1;
          w3 = w2\<lparr>alive := (alive w2)(ob := True)\<rparr>
      in (\<lparr>process_class = cls, identity = ident, started_in = cwd w3,
            proc_shell = get_shell, registered_as = Some ob\<rparr>, w3))"

text \<open>
  The backend of the \<^verbatim>\<open>full\<close> mode is not part of these sources: whether it could be
  imported, the shell that \<^verbatim>\<open>create({})\<close> makes, and \<^verbatim>\<open>TaskCaptureFullOutput\<close> for a code
  and a file name, whose answer carries the output stream and the error.
\<close>

record backend =
  BACKEND_AVAILABLE :: bool
  create :: ns
  TaskCaptureFullOutput :: "string \<Rightarrow> string \<Rightarrow> ns worker_task"

text \<open>
  Two tasks on a started worker, as the \<^verbatim>\<open>simple\<close> and \<^verbatim>\<open>full\<close> modes send them: the
  answer to the first is dropped, the answer to the second is unpacked into the output
  and the error, which raises when it is not such a pair.
\<close>

definition capture_both ::
  "ns worker_task \<Rightarrow> ns worker_task \<Rightarrow> process \<Rightarrow> (process \<times> string \<times> string option) outcome" where
  "capture_both pec_task code_task p =
     (case executeTask pec_task (proc_shell p) of
        Blocked \<Rightarrow> Blocked
      | Raised e \<Rightarrow> Raised e
      | Done (a, sh1) \<Rightarrow>
          (case executeTask code_task sh1 of
             Blocked \<Rightarrow> Blocked
           | Raised e \<Rightarrow> Raised e
           | Done (ACaptured raw_stu_output err, sh2) \<Rightarrow>
               Done (p\<lparr>proc_shell := sh2\<rparr>, raw_stu_output, err)
           | Done (other, sh2) \<Rightarrow> Raised (Exception ''cannot unpack'')))"

text \<open>\<^verbatim>\<open>run_single_process(pec, code, pid=None, mode="simple")\<close>.\<close>

definition run_single_process ::
  "(string \<Rightarrow> code) \<Rightarrow> backend \<Rightarrow> (nat \<Rightarrow> nat) \<Rightarrow> string \<Rightarrow> string \<Rightarrow> nat option \<Rightarrow>
   string \<Rightarrow> world \<Rightarrow> (process \<times> string \<times> string option) outcome \<times> world" where
  "run_single_process py be randint pec src pid mode w =
     (if mode = ''stub''
      then (case StubShell_init py pec of
              Inl e \<Rightarrow> (Raised e, w)
            | Inr user \<Rightarrow>
                (let (ident, w1) = new_identity randint pid w
                 in case run_code py src user of
                      (Inl e, user') \<Rightarrow> (Raised e, w1)
                    | (Inr (raw_stu_output, err), user') \<Rightarrow>
                        (Done (\<lparr>process_class = StubProcess, identity = ident,
                                 started_in = cwd w1, proc_shell = user',
                                 registered_as = None\<rparr>, raw_stu_output, err), w1)))
      else if mode = ''simple''
      then (let (p, w1) = start_worker SimpleProcess randint pid Map.empty w
            in (capture_both (TaskCaptureOutput py pec) (TaskCaptureOutput py src) p, w1))
      else if mode = ''full'' \<and> BACKEND_AVAILABLE be
      then (let (p, w1) = start_worker WorkerProcess randint pid (create be) w
            in (capture_both (TaskCaptureFullOutput be pec ''<PEC>'')
                  (TaskCaptureFullOutput be src ''script.py'') p, w1))
      else (Raised (Exception ''Invalid mode''), w))"

text \<open>
  \<^verbatim>\<open>os.chdir\<close> raises when the directory does not exist.  \<^verbatim>\<open>with ChDir(path): body\<close>
  remembers the current directory, enters \<open>path\<close>, runs the body, and goes back when the
  body returns or raises.
\<close>

definition chdir :: "string \<Rightarrow> world \<Rightarrow> exn + world" where
  "chdir path w = (if dirs w path then Inr (w\<lparr>cwd := path\<rparr>) else Inl (Exception path))"

definition ChDir :: "string \<Rightarrow> (world \<Rightarrow> 'a outcome \<times> world) \<Rightarrow> world \<Rightarrow> 'a outcome \<times> world" where
  "ChDir path body w =
     (let old_dir = cwd w
      in case chdir path w of
           Inl e \<Rightarrow> (Raised e, w)
         | Inr w1 \<Rightarrow>
             (case body w1 of
                (Blocked, w2) \<Rightarrow> (Blocked, w2)
              | (r, w2) \<Rightarrow>
                  (case chdir old_dir w2 of
                     Inl e \<Rightarrow> (Raised e, w2)
                   | Inr w3 \<Rightarrow> (r, w3))))"

text \<open>
  \<^verbatim>\<open>run_exercise(pec, sol_code, stu_code, sol_wd=None, stu_wd=None, **kwargs)\<close>, the
  keywords being \<open>pid\<close> and \<open>mode\<close>.
\<close>

definition run_exercise ::
  "(string \<Rightarrow> code) \<Rightarrow> backend \<Rightarrow> (nat \<Rightarrow> nat) \<Rightarrow> string \<Rightarrow> string \<Rightarrow> string \<Rightarrow>
   string option \<Rightarrow> string option \<Rightarrow> nat option \<Rightarrow> string \<Rightarrow> world \<Rightarrow>
   (process \<times> process \<times> string \<times> string option) outcome \<times> world" where
  "run_exercise py be randint pec sol_code stu_code sol_wd stu_wd pid mode w =
     (case ChDir (case sol_wd of Some d \<Rightarrow> d | None \<Rightarrow> cwd w)
             (run_single_process py be randint pec sol_code pid mode) w of
        (Blocked, w1) \<Rightarrow> (Blocked, w1)
      | (Raised e, w1) \<Rightarrow> (Raised e, w1)
      | (Done (sol_process, sol_output, sol_error), w1) \<Rightarrow>
          (case ChDir (case stu_wd of Some d \<Rightarrow> d | None \<Rightarrow> cwd w1)
                  (run_single_process py be randint pec stu_code pid mode) w1 of
             (Blocked, w2) \<Rightarrow> (Blocked, w2)
           | (Raised e, w2) \<Rightarrow> (Raised e, w2)
           | (Done (stu_process, raw_stu_output, err), w2) \<Rightarrow>
               (Done (sol_process, stu_process, raw_stu_output, err), w2)))"

text \<open>
  \<^verbatim>\<open>run(state, relative_working_dir="", solution_dir="solution")\<close> up to its last
  statement: the keyword arguments it builds for \<^verbatim>\<open>state.to_child\<close>.  \<open>Path\<close> is
  \<^verbatim>\<open>pathlib.Path\<close> of the given parts; \<^verbatim>\<open>os.makedirs(..., exist_ok=True)\<close> makes the
  directory exist; \<^verbatim>\<open>Reporter(parent, errors=...)\<close> is a new reporter.
\<close>

datatype reporter_obj = Reporter nat "string list"

record run_kwargs =
  kw_student_process :: process
  kw_solution_process :: process
  kw_raw_student_output :: string
  kw_reporter :: reporter_obj

definition run_arguments ::
  "(string \<Rightarrow> code) \<Rightarrow> backend \<Rightarrow> (nat \<Rightarrow> nat) \<Rightarrow> (string list \<Rightarrow> string) \<Rightarrow> State \<Rightarrow>
   string \<Rightarrow> string \<Rightarrow> world \<Rightarrow> run_kwargs outcome \<times> world" where
  "run_arguments py be randint Path state relative_working_dir solution_dir w =
     (let sol_wd = Path [cwd w, solution_dir, relative_working_dir];
          w1 = w\<lparr>dirs := (dirs w)(sol_wd := True)\<rparr>;
          stu_wd = Path [cwd w1, relative_working_dir]
      in case run_exercise py be randint [] (solution_code (attrs state))
                (student_code (attrs state)) (Some sol_wd) (Some stu_wd) None ''simple'' w1 of
           (Blocked, w2) \<Rightarrow> (Blocked, w2)
         | (Raised e, w2) \<Rightarrow> (Raised e, w2)
         | (Done (sol_process, stu_process, raw_stu_output, err), w2) \<Rightarrow>
             (Done \<lparr>kw_student_process = stu_process, kw_solution_process = sol_process,
                     kw_raw_student_output = raw_stu_output,
                     kw_reporter = Reporter (reporter (attrs state))
                       (case err of Some e \<Rightarrow> if e \<noteq> [] then [e] else [] | None \<Rightarrow> [])\<rparr>,
              w2))"

text \<open>
  The last statement of \<^verbatim>\<open>run\<close> calls \<^verbatim>\<open>state.to_child\<close> with the keywords
  \<^verbatim>\<open>student_process\<close>, \<^verbatim>\<open>solution_process\<close>, \<^verbatim>\<open>raw_student_output\<close> and \<^verbatim>\<open>reporter\<close>.
  \<^verbatim>\<open>State.to_child\<close> has the twelve parameters below and takes no other keyword, so the
  call raises \<^verbatim>\<open>TypeError\<close> for the first keyword that is not among them.
\<close>

definition to_child_parameters :: "string list" where
  "to_child_parameters =
     [''student_subtree'', ''solution_subtree'', ''student_context'', ''solution_context'',
      ''student_env'', ''solution_env'', ''student_parts'', ''solution_parts'',
      ''highlight'', ''highlighting_disabled'', ''append_message'', ''node_name'']"

definition run_keywords :: "string list" where
  "run_keywords = [''student_process'', ''solution_process'', ''raw_student_output'', ''reporter'']"

definition run ::
  "(string \<Rightarrow> code) \<Rightarrow> backend \<Rightarrow> (nat \<Rightarrow> nat) \<Rightarrow> (string list \<Rightarrow> string) \<Rightarrow> State \<Rightarrow>
   string \<Rightarrow> string \<Rightarrow> world \<Rightarrow> run_kwargs outcome \<times> world" where
  "run py be randint Path state relative_working_dir solution_dir w =
     (case run_arguments py be randint Path state relative_working_dir solution_dir w of
        (Done kw, w') \<Rightarrow>
          (case find (\<lambda>k. k \<notin> set to_child_parameters) run_keywords of
             Some k \<Rightarrow> (Raised (Exception (''to_child() got an unexpected keyword argument ''
                                            @ k)), w')
           | None \<Rightarrow> (Done kw, w'))
      | (r, w') \<Rightarrow> (r, w'))"

subsection \<open>An example exercise\<close>

text \<open>
  An interpreter for three programs: \<^verbatim>\<open>raise\<close> fails with a message, \<^verbatim>\<open>print\<close> writes a
  line and binds \<open>b\<close>, anything else does nothing.
\<close>

definition py0 :: "string \<Rightarrow> code" where
  "py0 src user =
     (if src = ''raise'' then \<lparr>raised = Some (Exception ''failed''), final_ns = user,
                                 printed = []\<rparr>
      else if src = ''print'' then \<lparr>raised = None, final_ns = user(''b'' \<mapsto> PyInt 2),
                                      printed = ''hi''\<rparr>
      else \<lparr>raised = None, final_ns = user, printed = []\<rparr>)"

definition be0 :: backend where
  "be0 = \<lparr>BACKEND_AVAILABLE = False, create = Map.empty,
           TaskCaptureFullOutput = (\<lambda>c f. TaskKillProcess)\<rparr>"

fun join_slash :: "string list \<Rightarrow> string" where
  "join_slash [] = []"
| "join_slash [p] = p"
| "join_slash (p # ps) = p @ ''/'' @ join_slash ps"

definition Path0 :: "string list \<Rightarrow> string" where
  "Path0 parts = join_slash (filter (\<lambda>p. p \<noteq> []) parts)"

definition s2 :: State where
  "s2 = State ((attrs s0)\<lparr>solution_code := ''raise'', student_code := ''print''\<rparr>) None"

text \<open>
  The namespace of a new \<^verbatim>\<open>StubShell\<close> after the pre-exercise code, and the worker that the
  \<^verbatim>\<open>simple\<close> mode returns for a program, a directory, an identity and a registry entry.
\<close>

definition after_pec :: "(string \<Rightarrow> code) \<Rightarrow> string \<Rightarrow> ns" where
  "after_pec py pec = snd (run_code py pec Map.empty)"

definition simple_process :: "(string \<Rightarrow> code) \<Rightarrow> string \<Rightarrow> string \<Rightarrow> string \<Rightarrow> nat \<Rightarrow> nat \<Rightarrow> process" where
  "simple_process py pec src wd ident ob =
     \<lparr>process_class = SimpleProcess, identity = ident, started_in = wd,
      proc_shell = snd (run_code py src (after_pec py pec)), registered_as = Some ob\<rparr>"

section \<open>Properties of Context\<close>

lemma alloc_frame: "alloc d h = (a, h') \<Longrightarrow> a = free h \<and> free h' = Suc (free h) \<and>
    cells h' a = d \<and> (\<forall>b. b \<noteq> free h \<longrightarrow> cells h' b = cells h b)"
  by (auto simp: alloc_def)

lemma Context_init_items:
  "Context_init di (Some u) (Some p) h = (c', h') \<Longrightarrow> u < free h \<Longrightarrow> p < free h \<Longrightarrow>
     cells h' (ctx_items c') = cells h p ++ di (cells h u)
     \<and> (\<forall>a<free h. cells h' a = cells h a)
     \<and> free h \<le> ctx_items c' \<and> free h \<le> free h'
     \<and> (ctx_prev c' = p \<or> free h \<le> ctx_prev c')
     \<and> (ctx_context c' = u \<or> free h \<le> ctx_context c')"
  by (auto simp: Context_init_def alloc_def Let_def split: if_splits)

lemma Context_init_wf:
  "Context_init di ca pa h = (c', h') \<Longrightarrow> (\<forall>a. ca = Some a \<longrightarrow> a < free h) \<Longrightarrow>
     (\<forall>a. pa = Some a \<longrightarrow> a < free h) \<Longrightarrow> wf_Context di h' c'"
  by (auto simp: Context_init_def alloc_def Let_def wf_Context_def accumulated_def
           split: if_splits option.splits)

text \<open>
  C5.  For every Context \<open>c\<close> and update mapping at \<open>u\<close>, the bindings visible in
  \<^verbatim>\<open>c.update_ctx(u)\<close> are the bindings of \<open>c\<close> overlaid with the bindings of \<open>u\<close> (as
  its \<^verbatim>\<open>defined_items()\<close> gives them): every key of either is a key of the result, and
  the update wins on a shared key.  The call writes to no existing object, so \<open>c\<close> and
  its ancestors keep their contents, and the \<^verbatim>\<open>prev\<close> and \<^verbatim>\<open>_items\<close> dictionaries of the
  result are new objects: no structure of the result is shared back into the parent.
\<close>

theorem update_ctx_overlay:
  assumes "update_ctx di c u h = (c', h')"
    and "u < free h" and "wf_Context di h c"
  shows "(\<forall>k. getitem h' c' k =
          (case di (cells h u) k of Some v \<Rightarrow> Some v | None \<Rightarrow> getitem h c k))
    \<and> dom (cells h' (ctx_items c')) = dom (cells h (ctx_items c)) \<union> dom (di (cells h u))
    \<and> (\<forall>a<free h. cells h' a = cells h a)
    \<and> (\<forall>k. getitem h' c k = getitem h c k)
    \<and> free h \<le> ctx_prev c' \<and> free h \<le> ctx_items c'
    \<and> (ctx_context c' = u \<or> free h \<le> ctx_context c')
    \<and> wf_Context di h' c'"
proof -
  have acc: "cells h (ctx_items c) = accumulated di h c" and ci_lt: "ctx_items c < free h"
    using assms(3) by (auto simp: wf_Context_def)
  obtain p h1 where a: "alloc (accumulated di h c) h = (p, h1)"
    by (cases "alloc (accumulated di h c) h") auto
  from alloc_frame[OF a] have p: "p = free h" and f1: "free h1 = Suc (free h)"
    and cp: "cells h1 p = accumulated di h c"
    and old: "\<forall>b. b \<noteq> free h \<longrightarrow> cells h1 b = cells h b"
    by auto
  from assms(1) a have ci: "Context_init di (Some u) (Some p) h1 = (c', h')"
    by (simp add: update_ctx_def accumulated_def)
  have lt: "u < free h1" "p < free h1" using assms(2) p f1 by auto
  from Context_init_items[OF ci lt]
  have items: "cells h' (ctx_items c') = cells h1 p ++ di (cells h1 u)"
    and frame: "\<forall>a<free h1. cells h' a = cells h1 a"
    and fresh: "free h1 \<le> ctx_items c'"
    and pr: "ctx_prev c' = p \<or> free h1 \<le> ctx_prev c'"
    and cx: "ctx_context c' = u \<or> free h1 \<le> ctx_context c'"
    by auto
  have u1: "cells h1 u = cells h u" using old assms(2) by auto
  have 1: "cells h' (ctx_items c') = cells h (ctx_items c) ++ di (cells h u)"
    using items cp u1 acc by simp
  have 2: "\<forall>k. getitem h' c' k =
          (case di (cells h u) k of Some v \<Rightarrow> Some v | None \<Rightarrow> getitem h c k)"
    by (simp add: getitem_def 1 map_add_def split: option.split)
  have 3: "dom (cells h' (ctx_items c')) = dom (cells h (ctx_items c)) \<union> dom (di (cells h u))"
    by (simp add: 1 Un_commute)
  have 4: "\<forall>a<free h. cells h' a = cells h a"
    using frame old f1 by auto
  have 5: "\<forall>k. getitem h' c k = getitem h c k"
    using 4 ci_lt by (simp add: getitem_def)
  have 6: "free h \<le> ctx_prev c'" using pr p f1 by auto
  have 7: "free h \<le> ctx_items c'" using fresh f1 by auto
  have 8: "ctx_context c' = u \<or> free h \<le> ctx_context c'" using cx f1 by auto
  have 9: "wf_Context di h' c'"
    using Context_init_wf[OF ci] lt by simp
  show ?thesis using 2 3 4 5 6 7 8 9 by blast
qed

theorem update_ctx_overlay_witness:
  "wf_Context (\<lambda>m. m) h0 c0 \<and> (3::nat) < free h0
   \<and> getitem (snd (update_ctx (\<lambda>m. m) c0 3 h0)) (fst (update_ctx (\<lambda>m. m) c0 3 h0)) ''x'' = Some (PyInt 1)
   \<and> getitem (snd (update_ctx (\<lambda>m. m) c0 3 h0)) (fst (update_ctx (\<lambda>m. m) c0 3 h0)) ''y'' = Some (PyInt 5)
   \<and> getitem (snd (update_ctx (\<lambda>m. m) c0 3 h0)) (fst (update_ctx (\<lambda>m. m) c0 3 h0)) ''z'' = Some (PyInt 7)
   \<and> getitem (snd (update_ctx (\<lambda>m. m) c0 3 h0)) c0 ''y'' = Some (PyInt 2)"
proof -
  have wf: "wf_Context (\<lambda>m. m) h0 c0"
    by (simp add: wf_Context_def h0_def c0_def accumulated_def)
  have lt: "(3::nat) < free h0" by (simp add: h0_def)
  have eq: "update_ctx (\<lambda>m. m) c0 3 h0
      = (fst (update_ctx (\<lambda>m. m) c0 3 h0), snd (update_ctx (\<lambda>m. m) c0 3 h0))"
    by simp
  have g: "getitem h0 c0 ''x'' = Some (PyInt 1)" "getitem h0 c0 ''y'' = Some (PyInt 2)"
    "getitem h0 c0 ''z'' = None" "cells h0 3 = [''y'' \<mapsto> PyInt 5, ''z'' \<mapsto> PyInt 7]"
    by (simp_all add: getitem_def h0_def c0_def)
  show ?thesis
    using update_ctx_overlay[OF eq lt wf] wf lt g by simp
qed


section \<open>Properties of State\<close>

lemma derive_ctx_None: "derive_ctx di c None h = (c, h)"
  by (simp add: derive_ctx_def)

lemma update_ctx_frame:
  "update_ctx di c u h = (c', h') \<Longrightarrow> free h \<le> free h' \<and> (\<forall>b<free h. cells h' b = cells h b)"
  by (auto simp: update_ctx_def Context_init_def alloc_def Let_def split: if_splits)

lemma derive_ctx_frame:
  "derive_ctx di c upd h = (c', h') \<Longrightarrow> free h \<le> free h' \<and> (\<forall>b<free h. cells h' b = cells h b)"
  by (cases upd) (auto simp: derive_ctx_def dest: update_ctx_frame)

text \<open>
  C3, as amended.  When at least one of the two subtrees is absent, \<^verbatim>\<open>to_child\<close> raises
  nothing and returns a copy of the State that differs from it in seven attributes at
  most: the four Contexts and environments (each the parent's own when no update is
  given), the message trail (the parent's trail with the new entry appended), and also
  \<^verbatim>\<open>highlight\<close>, which is set to the \<^verbatim>\<open>highlight\<close> argument, and
  \<^verbatim>\<open>highlighting_disabled\<close>, which is set to its argument when one is given.  The parent
  link and every other attribute are the parent's, and no existing dictionary is
  written.
\<close>

theorem to_child_absent_subtree:
  assumes "wrap (student_subtree a) = None \<or> wrap (solution_subtree a) = None"
  shows "\<exists>s' h'. to_child di sub gt self a h = (Inr s', h')
     \<and> same_other_attrs self s'
     \<and> messages (attrs s') = messages (attrs self) @ [appended (append_message a)]
     \<and> highlight (attrs s') = highlight_arg a
     \<and> highlighting_disabled (attrs s') =
         (case highlighting_disabled_arg a of None \<Rightarrow> highlighting_disabled (attrs self)
          | Some b \<Rightarrow> Some b)
     \<and> (student_context_upd a = None \<longrightarrow> student_context (attrs s') = student_context (attrs self))
     \<and> (solution_context_upd a = None \<longrightarrow> solution_context (attrs s') = solution_context (attrs self))
     \<and> (student_env_upd a = None \<longrightarrow> student_env (attrs s') = student_env (attrs self))
     \<and> (solution_env_upd a = None \<longrightarrow> solution_env (attrs s') = solution_env (attrs self))
     \<and> (\<forall>b<free h. cells h' b = cells h b)"
proof -
  let ?A = "attrs self"
  obtain sol_c h1 where d1: "derive_ctx di (solution_context ?A) (solution_context_upd a) h = (sol_c, h1)"
    by (cases "derive_ctx di (solution_context ?A) (solution_context_upd a) h") auto
  obtain stu_c h2 where d2: "derive_ctx di (student_context ?A) (student_context_upd a) h1 = (stu_c, h2)"
    by (cases "derive_ctx di (student_context ?A) (student_context_upd a) h1") auto
  obtain sol_e h3 where d3: "derive_ctx di (solution_env ?A) (solution_env_upd a) h2 = (sol_e, h3)"
    by (cases "derive_ctx di (solution_env ?A) (solution_env_upd a) h2") auto
  obtain stu_e h4 where d4: "derive_ctx di (student_env ?A) (student_env_upd a) h3 = (stu_e, h4)"
    by (cases "derive_ctx di (student_env ?A) (student_env_upd a) h3") auto
  let ?hd = "case highlighting_disabled_arg a of None \<Rightarrow> highlighting_disabled ?A
             | Some b \<Rightarrow> Some b"
  let ?s' = "State_update self stu_c sol_c stu_e sol_e (highlight_arg a) ?hd
               (messages ?A @ [appended (append_message a)])"
  have run: "to_child di sub gt self a h = (Inr ?s', h4)"
    unfolding to_child_def Let_def d1 d2 d3 d4 prod.case appended_def
    using assms by (auto split: option.splits)
  have f1: "free h \<le> free h1 \<and> (\<forall>b<free h. cells h1 b = cells h b)"
    using derive_ctx_frame[OF d1] .
  have f2: "free h1 \<le> free h2 \<and> (\<forall>b<free h1. cells h2 b = cells h1 b)"
    using derive_ctx_frame[OF d2] .
  have f3: "free h2 \<le> free h3 \<and> (\<forall>b<free h2. cells h3 b = cells h2 b)"
    using derive_ctx_frame[OF d3] .
  have f4: "free h3 \<le> free h4 \<and> (\<forall>b<free h3. cells h4 b = cells h3 b)"
    using derive_ctx_frame[OF d4] .
  have frame: "\<forall>b<free h. cells h4 b = cells h b"
    using f1 f2 f3 f4 by (metis (no_types, lifting) less_le_trans)
  have c1: "solution_context_upd a = None \<longrightarrow> solution_context (attrs ?s') = solution_context ?A"
    using d1 by (auto simp: derive_ctx_def State_update_def)
  have c2: "student_context_upd a = None \<longrightarrow> student_context (attrs ?s') = student_context ?A"
    using d2 by (auto simp: derive_ctx_def State_update_def)
  have c3: "solution_env_upd a = None \<longrightarrow> solution_env (attrs ?s') = solution_env ?A"
    using d3 by (auto simp: derive_ctx_def State_update_def)
  have c4: "student_env_upd a = None \<longrightarrow> student_env (attrs ?s') = student_env ?A"
    using d4 by (auto simp: derive_ctx_def State_update_def)
  note c1 c2 c3 c4
  have same: "same_other_attrs self ?s'"
    by (simp add: same_other_attrs_def State_update_def)
  have rest: "messages (attrs ?s') = messages ?A @ [appended (append_message a)]"
    "highlight (attrs ?s') = highlight_arg a"
    "highlighting_disabled (attrs ?s') = ?hd"
    "student_context (attrs ?s') = stu_c" "solution_context (attrs ?s') = sol_c"
    "student_env (attrs ?s') = stu_e" "solution_env (attrs ?s') = sol_e"
    by (simp_all add: State_update_def)
  show ?thesis
  proof (intro exI conjI)
    show "to_child di sub gt self a h = (Inr ?s', h4)" by (rule run)
    show "same_other_attrs self ?s'" by (rule same)
    show "messages (attrs ?s') = messages ?A @ [appended (append_message a)]" by (rule rest)
    show "highlight (attrs ?s') = highlight_arg a" by (rule rest)
    show "highlighting_disabled (attrs ?s') = ?hd" by (rule rest)
    show "student_context_upd a = None \<longrightarrow> student_context (attrs ?s') = student_context ?A"
      by (rule c2)
    show "solution_context_upd a = None \<longrightarrow> solution_context (attrs ?s') = solution_context ?A"
      by (rule c1)
    show "student_env_upd a = None \<longrightarrow> student_env (attrs ?s') = student_env ?A"
      by (rule c4)
    show "solution_env_upd a = None \<longrightarrow> solution_env (attrs ?s') = solution_env ?A"
      by (rule c3)
    show "\<forall>b<free h. cells h4 b = cells h b" by (rule frame)
  qed
qed


theorem to_child_absent_subtree_witness:
  "(wrap (student_subtree args1) = None \<or> wrap (solution_subtree args1) = None)
   \<and> (case fst (to_child (\<lambda>m. m) (\<lambda>n. False) (\<lambda>k n. []) s0 args1 h0) of
         Inl e \<Rightarrow> False
       | Inr s' \<Rightarrow> same_other_attrs s0 s'
           \<and> messages (attrs s') = messages (attrs s0) @ [\<lparr>msg = ''hello'', kwargs = Map.empty\<rparr>]
           \<and> highlight (attrs s') = None
           \<and> solution_context (attrs s') = solution_context (attrs s0))"
proof -
  have a: "wrap (student_subtree args1) = None \<or> wrap (solution_subtree args1) = None"
    by (simp add: args1_def no_args_def)
  have b: "appended (append_message args1) = \<lparr>msg = ''hello'', kwargs = Map.empty\<rparr>"
    "highlight_arg args1 = None" "solution_context_upd args1 = None"
    by (simp_all add: args1_def no_args_def appended_def)
  from to_child_absent_subtree[OF a, of "\<lambda>m. m" "\<lambda>n. False" "\<lambda>k n. []" s0 h0]
  show ?thesis using a b by auto
qed

text \<open>
  C3 as it is stated fails: a no-op step with the default arguments on a State that has a
  highlight returns a State without one.
\<close>

theorem to_child_other_fields_counterexample:
  "wrap (student_subtree no_args) = None
   \<and> highlight (attrs s0) = Some (Node 0 ''x = 1'')
   \<and> fst (to_child (\<lambda>m. m) (\<lambda>n. False) (\<lambda>k n. []) s0 no_args h0)
       = Inr (State ((attrs s0)\<lparr>highlight := None,
                messages := messages (attrs s0) @ [\<lparr>msg = [], kwargs = Map.empty\<rparr>]\<rparr>) None)"
  by (simp add: to_child_def no_args_def s0_def derive_ctx_def State_update_def)

text \<open>
  For contrast, the descent: with both subtrees present the result is a new State whose
  parent is the State descended from, with the code of the subtrees and the processes
  and reporter of the parent.
\<close>


lemma to_child_descends:
  assumes "wrap (student_subtree a) = Some stu" and "wrap (solution_subtree a) = Some sol"
    and "node_name a = [] \<or> sub (node_name a)"
  shows "\<exists>child h'. to_child di sub gt self a h = (Inr child, h')
     \<and> parent_state child = Some self
     \<and> student_tree (attrs child) = Some stu \<and> solution_tree (attrs child) = Some sol
     \<and> student_code (attrs child) = gt (student_tree_tokens (attrs self)) stu
     \<and> solution_code (attrs child) = gt (solution_tree_tokens (attrs self)) sol
     \<and> klass (attrs child) = (if node_name a = [] then ''State'' else node_name a)
     \<and> messages (attrs child) = messages (attrs self) @ [appended (append_message a)]
     \<and> highlight (attrs child) = (case highlight_arg a of None \<Rightarrow> Some stu | Some n \<Rightarrow> Some n)
     \<and> student_process (attrs child) = student_process (attrs self)
     \<and> solution_process (attrs child) = solution_process (attrs self)
     \<and> reporter (attrs child) = reporter (attrs self)"
proof -
  let ?A = "attrs self"
  obtain sol_c h1 where d1: "derive_ctx di (solution_context ?A) (solution_context_upd a) h = (sol_c, h1)"
    by (cases "derive_ctx di (solution_context ?A) (solution_context_upd a) h") auto
  obtain stu_c h2 where d2: "derive_ctx di (student_context ?A) (student_context_upd a) h1 = (stu_c, h2)"
    by (cases "derive_ctx di (student_context ?A) (student_context_upd a) h1") auto
  obtain sol_e h3 where d3: "derive_ctx di (solution_env ?A) (solution_env_upd a) h2 = (sol_e, h3)"
    by (cases "derive_ctx di (solution_env ?A) (solution_env_upd a) h2") auto
  obtain stu_e h4 where d4: "derive_ctx di (student_env ?A) (student_env_upd a) h3 = (stu_e, h4)"
    by (cases "derive_ctx di (student_env ?A) (student_env_upd a) h3") auto
  show ?thesis
    unfolding to_child_def Let_def d1 d2 d3 d4 prod.case appended_def assms(1,2)
    using assms(3)
    by (auto simp: State_init_def split: option.splits)
qed

subsection \<open>build_message\<close>


lemma windows_length: "length (windows msgs) = length msgs"
  by (simp add: windows_def)

lemma windows_nth:
  "i < length msgs \<Longrightarrow> windows msgs ! i =
     (if i = 0 then None else Some (kwargs (msgs ! (i - 1))), msgs ! i,
      if Suc i < length msgs then Some (kwargs (msgs ! Suc i)) else None)"
  by (cases i) (auto simp: windows_def nth_append nth_butlast nth_tl)

lemma windows_map:
  "windows msgs = map (\<lambda>i. (if i = 0 then None else Some (kwargs (msgs ! (i - 1))), msgs ! i,
      if Suc i < length msgs then Some (kwargs (msgs ! Suc i)) else None)) [0..<length msgs]"
  by (rule nth_equalityI) (simp_all add: windows_length windows_nth)

lemma format_msgs_collect:
  "format_msgs render ws out =
     (case collect (map (render_window render) (filter (\<lambda>w. msg (fst (snd w)) \<noteq> []) ws)) of
        Inl e \<Rightarrow> Inl e | Inr xs \<Rightarrow> Inr (out @ xs))"
proof (induction ws arbitrary: out)
  case Nil
  then show ?case by simp
next
  case (Cons w ws)
  obtain p d n where w: "w = (p, d, n)" by (cases w) auto
  show ?case
  proof (cases "msg d = []")
    case True
    then show ?thesis using Cons w by simp
  next
    case False
    then show ?thesis using Cons w
      by (cases "render (strip_jinja (msg d)) (tmp_kwargs p d n)")
         (auto simp: render_window_def split: sum.splits)
  qed
qed

lemma windows_rendered:
  "map (render_window render) (filter (\<lambda>w. msg (fst (snd w)) \<noteq> []) (windows msgs))
   = map (render_entry render msgs) (filter (\<lambda>i. msg (msgs ! i) \<noteq> []) [0..<length msgs])"
  apply (subst windows_map)
  apply (simp add: filter_map comp_def render_window_def render_entry_def)
  done



lemma last_three_Nil: "(last_three xs = []) = (xs = [])"
  by (cases xs) (auto simp: last_three_def)

lemma last_three_empty: "last_three [] = []"
  by (simp add: last_three_def)

lemma last_last_three: "xs \<noteq> [] \<Longrightarrow> last (last_three xs) = last xs"
  by (simp add: last_three_def last_drop)

text \<open>
  C9, as amended.  \<^verbatim>\<open>build_message\<close> renders the entries of the trail followed by the
  tail entry, in order, each against the parameters of the previous, the current and
  the next entry, leaving out the entries with an empty text; a rendering that raises
  ends the call with that exception.  With \<^verbatim>\<open>append\<close> true the result is the
  concatenation of the renderings, of the last three only when the State has a
  highlight and highlighting is not disabled.  With \<^verbatim>\<open>append\<close> false the result is the
  last rendering alone, and an \<^verbatim>\<open>IndexError\<close> when there is none.
\<close>

theorem build_message_renders:
  "build_message render self tail fmt join_all =
     (case rendered_trail render (trail_with_tail self tail fmt) of
        Inl e \<Rightarrow> Inl e
      | Inr outs \<Rightarrow>
          if join_all
          then Inr (concat (if highlight (attrs self) \<noteq> None
                               \<and> highlighting_disabled (attrs self) \<noteq> Some True
                            then last_three outs else outs))
          else if outs = [] then Inl (Exception ''list index out of range'')
          else Inr (last outs))"
proof -
  let ?msgs = "trail_with_tail self tail fmt"
  have fm: "format_msgs render (windows ?msgs) [] =
      (case rendered_trail render ?msgs of Inl e \<Rightarrow> Inl e | Inr xs \<Rightarrow> Inr xs)"
    by (simp add: format_msgs_collect windows_rendered rendered_trail_def split: sum.split)
  show ?thesis
  proof (cases "rendered_trail render ?msgs")
    case (Inl e)
    then show ?thesis using fm
      by (simp add: build_message_def trail_with_tail_def)
  next
    case (Inr outs)
    then show ?thesis using fm
      by (simp add: build_message_def trail_with_tail_def Let_def last_three_Nil
          last_last_three last_three_empty last_three_def[symmetric])
  qed
qed


theorem build_message_renders_witness:
  "build_message echo s0 (Some ''d'') None True = Inr ''bcd''
   \<and> rendered_trail echo (trail_with_tail s0 (Some ''d'') None) = Inr [''a'', ''b'', ''c'', ''d'']
   \<and> build_message echo s1 (Some ''d'') None True = Inr ''abcd''"
proof -
  have r0: "rendered_trail echo (trail_with_tail s0 (Some ''d'') None) = Inr [''a'', ''b'', ''c'', ''d'']"
    by code_simp
  have r1: "rendered_trail echo (trail_with_tail s1 (Some ''d'') None) = Inr [''a'', ''b'', ''c'', ''d'']"
    by code_simp
  have h: "highlight (attrs s0) \<noteq> None" "highlighting_disabled (attrs s0) \<noteq> Some True"
    "highlight (attrs s1) = None"
    by (simp_all add: s0_def s1_def)
  show ?thesis
    using build_message_renders[of echo s0 "Some ''d''" None True]
      build_message_renders[of echo s1 "Some ''d''" None True] r0 r1 h
    by (simp add: last_three_def)
qed

text \<open>
  C9 as it is stated fails when \<^verbatim>\<open>append\<close> is false: three entries are rendered, the State
  has no highlight, and the result is the last rendering, not their concatenation.
\<close>

theorem build_message_append_counterexample:
  "highlight (attrs s1) = None
   \<and> rendered_trail echo (trail_with_tail s1 None None) = Inr [''a'', ''b'', ''c'']
   \<and> build_message echo s1 None None False = Inr ''c''
   \<and> build_message echo s1 None None False \<noteq> Inr (concat [''a'', ''b'', ''c''])"
proof -
  have 1: "highlight (attrs s1) = None" by (simp add: s1_def)
  have 2: "rendered_trail echo (trail_with_tail s1 None None) = Inr [''a'', ''b'', ''c'']"
    by code_simp
  have 3: "build_message echo s1 None None False = Inr ''c''"
    by code_simp
  show ?thesis using 1 2 3 by simp
qed

section \<open>Properties of the tasks\<close>


lemma last_error_Nil: "last_error [] = None"
  by (simp add: last_error_def)

lemma last_error_Cons:
  "last_error (c # cs) = (case last_error cs of Some e \<Rightarrow> Some e | None \<Rightarrow> exit_raises c)"
proof (cases "filter (\<lambda>c. exit_raises c \<noteq> None) cs")
  case Nil
  then show ?thesis by (auto simp: last_error_def)
next
  case (Cons x xs)
  then have "x # xs \<noteq> []" by simp
  have "last (x # xs) \<in> set (filter (\<lambda>c. exit_raises c \<noteq> None) cs)"
    using Cons by (metis last_in_set list.discI)
  then have "exit_raises (last (x # xs)) \<noteq> None" by simp
  then show ?thesis using Cons by (auto simp: last_error_def)
qed

lemma exit_loop_all:
  "\<forall>c\<in>set cs. \<forall>e. exit_raises c = Some e \<longrightarrow> is_Exception e \<Longrightarrow>
   exit_loop cs got exited =
     (Inr (case last_error cs of Some e \<Rightarrow> Some e | None \<Rightarrow> got), exited @ map cm_id cs)"
proof (induction cs arbitrary: got exited)
  case Nil
  then show ?case by (simp add: last_error_Nil)
next
  case (Cons c cs)
  then show ?case
    by (cases "exit_raises c") (auto simp: last_error_Cons split: option.splits)
qed

text \<open>
  C8, as amended.  When every failing \<^verbatim>\<open>__exit__\<close> raises an instance of \<^verbatim>\<open>Exception\<close>,
  tear-down calls \<^verbatim>\<open>__exit__\<close> on every recorded context manager, in the recorded order,
  raises nothing, and returns the last error among the exits, or \<^verbatim>\<open>False\<close> when every exit
  succeeded; the task then also removes the scoped environment from the shell.
\<close>

theorem context_objs_exit_all:
  assumes "\<forall>c\<in>set cs. \<forall>e. exit_raises c = Some e \<longrightarrow> is_Exception e"
  shows "context_objs_exit cs = (Inr (last_error cs), map cm_id cs)
    \<and> (context_objs sh = Some cs \<and> env_layer sh \<noteq> None \<longrightarrow>
         TaskBreakDownNewEnv sh
           = (last_error cs, sh\<lparr>context_objs := None, env_layer := None\<rparr>, map cm_id cs))
    \<and> (last_error cs = None \<longleftrightarrow> (\<forall>c\<in>set cs. exit_raises c = None))"
proof -
  have 1: "context_objs_exit cs = (Inr (last_error cs), map cm_id cs)"
    using exit_loop_all[OF assms, of None "[]"]
    by (simp add: context_objs_exit_def split: option.splits)
  have 2: "context_objs sh = Some cs \<and> env_layer sh \<noteq> None \<longrightarrow>
         TaskBreakDownNewEnv sh
           = (last_error cs, sh\<lparr>context_objs := None, env_layer := None\<rparr>, map cm_id cs)"
    by (auto simp: TaskBreakDownNewEnv_def 1)
  have 3: "last_error cs = None \<longleftrightarrow> (\<forall>c\<in>set cs. exit_raises c = None)"
    by (induction cs) (auto simp: last_error_Nil last_error_Cons split: option.splits)
  show ?thesis using 1 2 3 by blast
qed

theorem context_objs_exit_all_witness:
  "map exit_raises cs1 = [Some (Exception ''first''), None, Some (Exception ''last''), None]
   \<and> context_objs_exit cs1 = (Inr (Some (Exception ''last'')), [1, 2, 3, 4])"
proof -
  have h: "\<forall>c\<in>set cs1. \<forall>e. exit_raises c = Some e \<longrightarrow> is_Exception e"
    by (simp add: cs1_def)
  have l: "last_error cs1 = Some (Exception ''last'')"
    by (simp add: last_error_def cs1_def)
  have m: "map cm_id cs1 = [1, 2, 3, 4]"
    by (simp add: cs1_def)
  have x: "map exit_raises cs1 = [Some (Exception ''first''), None, Some (Exception ''last''), None]"
    by (simp add: cs1_def)
  show ?thesis using context_objs_exit_all[OF h, of sh0] x l m by simp
qed

text \<open>
  C8 as it is stated fails: the first manager's \<^verbatim>\<open>__exit__\<close> raises \<^verbatim>\<open>SystemExit\<close>, which
  is not an \<^verbatim>\<open>Exception\<close>; it leaves \<^verbatim>\<open>context_objs_exit\<close>, the second manager is never
  exited, and the task answers \<^verbatim>\<open>False\<close> with the scoped environment still in place.
\<close>

theorem context_objs_exit_counterexample:
  "context_objs_exit cs2 = (Inl (BaseOnly ''SystemExit''), [1])
   \<and> map cm_id cs2 = [1, 2]
   \<and> TaskBreakDownNewEnv (sh0\<lparr>env_layer := Some Map.empty, context_objs := Some cs2\<rparr>)
       = (None, sh0\<lparr>env_layer := Some Map.empty, context_objs := Some cs2\<rparr>, [1])"
  by (simp add: context_objs_exit_def cs2_def TaskBreakDownNewEnv_def sh0_def)

text \<open>
  C1, as amended.  Once the task has built \<^verbatim>\<open>new_env\<close> (the copy of the shell's
  environment, updated with \<^verbatim>\<open>extra_env\<close> and the context values), it returns \<^verbatim>\<open>None\<close>
  exactly when running the setup code and then the snippet in \<^verbatim>\<open>new_env\<close> raises.  When
  they run to completion and the target name is not a key of \<^verbatim>\<open>new_env\<close> afterwards, it
  returns the text \<^verbatim>\<open>undefined\<close>.  When the name is a key afterwards, whether the snippet
  bound it or it was there before, the value is staged under the temporary name, and
  the task returns \<^verbatim>\<open>str\<close> of the value when that returns, and raises what \<^verbatim>\<open>str\<close> raises
  otherwise.  \<^verbatim>\<open>None\<close> is told apart from both texts; the two texts are told apart only
  when the text of the value is not \<^verbatim>\<open>undefined\<close>.
\<close>

theorem run_tree_store_env_outcomes:
  assumes "new_env u k sh = Inr env"
  shows "(\<forall>e. run_snippet k env = Inl e \<longrightarrow> TaskRunTreeStoreEnv u k sh = (Inr None, sh))
    \<and> (\<forall>env'. run_snippet k env = Inr env' \<and> env' (name k) = None \<longrightarrow>
          TaskRunTreeStoreEnv u k sh = (Inr (Some ''undefined''), sh))
    \<and> (\<forall>env' obj s. run_snippet k env = Inr env' \<and> env' (name k) = Some obj \<and> py_str obj = Inr s \<longrightarrow>
          TaskRunTreeStoreEnv u k sh = (Inr (Some s), set_env sh (tempname k) obj))
    \<and> (\<forall>env' obj e. run_snippet k env = Inr env' \<and> env' (name k) = Some obj \<and> py_str obj = Inl e \<longrightarrow>
          TaskRunTreeStoreEnv u k sh = (Inl e, set_env sh (tempname k) obj))
    \<and> (fst (TaskRunTreeStoreEnv u k sh) = Inr None \<longleftrightarrow> (\<exists>e. run_snippet k env = Inl e))"
  using assms by (auto simp: TaskRunTreeStoreEnv_def Let_def split: sum.splits option.splits)

theorem run_tree_store_env_outcomes_witness:
  "new_env u0 (task_for pass_code) sh_x = Inr [''x'' \<mapsto> PyInt 3]
   \<and> TaskRunTreeStoreEnv u0 (task_for pass_code) sh_x
       = (Inr (Some ''3''), set_env sh_x ''_evaluation_object_'' (PyInt 3))
   \<and> TaskRunTreeStoreEnv u0 (task_for (assign ''x'' (PyInt 5))) sh_x
       = (Inr (Some ''5''), set_env sh_x ''_evaluation_object_'' (PyInt 5))
   \<and> TaskRunTreeStoreEnv u0 (task_for (raising (Exception ''boom''))) sh_x = (Inr None, sh_x)
   \<and> TaskRunTreeStoreEnv u0 (task_for (assign ''y'' (PyInt 5))) sh0
       = (Inr (Some ''undefined''), sh0)"
proof -
  have nx: "new_env u0 (task_for c) sh_x = Inr [''x'' \<mapsto> PyInt 3]" for c
    by (simp add: new_env_def u0_def task_for_def sh_x_def get_env_def)
  have n0: "new_env u0 (task_for c) sh0 = Inr Map.empty" for c
    by (simp add: new_env_def u0_def task_for_def sh0_def get_env_def)
  have rp: "run_snippet (task_for pass_code) [''x'' \<mapsto> PyInt 3] = Inr [''x'' \<mapsto> PyInt 3]"
    by (simp add: run_snippet_def task_for_def pass_code_def)
  have r5: "run_snippet (task_for (assign ''x'' (PyInt 5))) [''x'' \<mapsto> PyInt 3]
      = Inr [''x'' \<mapsto> PyInt 5]"
    by (simp add: run_snippet_def task_for_def assign_def)
  have rb: "run_snippet (task_for (raising (Exception ''boom''))) [''x'' \<mapsto> PyInt 3]
      = Inl (Exception ''boom'')"
    by (simp add: run_snippet_def task_for_def raising_def)
  have ry: "run_snippet (task_for (assign ''y'' (PyInt 5))) Map.empty = Inr [''y'' \<mapsto> PyInt 5]"
    by (simp add: run_snippet_def task_for_def assign_def)
  have s3: "py_str (PyInt 3) = Inr ''3''" by code_simp
  have s5: "py_str (PyInt 5) = Inr ''5''" by code_simp
  note s = s3 s5
  have nm: "name (task_for c) = ''x''" "tempname (task_for c) = ''_evaluation_object_''" for c
    by (simp_all add: task_for_def)
  note T = run_tree_store_env_outcomes
  have a: "TaskRunTreeStoreEnv u0 (task_for pass_code) sh_x
       = (Inr (Some ''3''), set_env sh_x (tempname (task_for pass_code)) (PyInt 3))"
  proof -
    have "run_snippet (task_for pass_code) [''x'' \<mapsto> PyInt 3] = Inr [''x'' \<mapsto> PyInt 3]
        \<and> [''x'' \<mapsto> PyInt 3] (name (task_for pass_code)) = Some (PyInt 3)
        \<and> py_str (PyInt 3) = Inr ''3''"
      by (simp add: rp nm s3 del: py_str.simps(3))
    then show ?thesis
      by (rule T[OF nx, THEN conjunct2, THEN conjunct2, THEN conjunct1, rule_format])
  qed
  have b: "TaskRunTreeStoreEnv u0 (task_for (assign ''x'' (PyInt 5))) sh_x
       = (Inr (Some ''5''), set_env sh_x (tempname (task_for (assign ''x'' (PyInt 5)))) (PyInt 5))"
  proof -
    have "run_snippet (task_for (assign ''x'' (PyInt 5))) [''x'' \<mapsto> PyInt 3]
          = Inr [''x'' \<mapsto> PyInt 5]
        \<and> [''x'' \<mapsto> PyInt 5] (name (task_for (assign ''x'' (PyInt 5)))) = Some (PyInt 5)
        \<and> py_str (PyInt 5) = Inr ''5''"
      by (simp add: r5 nm s5 del: py_str.simps(3))
    then show ?thesis
      by (rule T[OF nx, THEN conjunct2, THEN conjunct2, THEN conjunct1, rule_format])
  qed
  have c: "TaskRunTreeStoreEnv u0 (task_for (raising (Exception ''boom''))) sh_x = (Inr None, sh_x)"
    using rb by (rule T[OF nx, THEN conjunct1, rule_format])
  have d: "TaskRunTreeStoreEnv u0 (task_for (assign ''y'' (PyInt 5))) sh0
       = (Inr (Some ''undefined''), sh0)"
  proof -
    have "run_snippet (task_for (assign ''y'' (PyInt 5))) Map.empty = Inr [''y'' \<mapsto> PyInt 5]
        \<and> [''y'' \<mapsto> PyInt 5] (name (task_for (assign ''y'' (PyInt 5)))) = None"
      by (simp add: ry nm)
    then show ?thesis
      by (rule T[OF n0, THEN conjunct2, THEN conjunct1, rule_format])
  qed
  show ?thesis using nx a b c d by (simp add: nm)
qed

text \<open>
  C1 as it is stated fails three times.  A snippet that never binds \<open>x\<close> and a snippet
  that binds \<open>x\<close> to the string \<^verbatim>\<open>undefined\<close> give the same result.  In a shell where \<open>x\<close> is
  already 3, a snippet that binds nothing gives \<^verbatim>\<open>3\<close>, not \<^verbatim>\<open>undefined\<close>.  And a snippet
  that binds \<open>x\<close> to an object whose \<^verbatim>\<open>__str__\<close> raises makes the task raise.
\<close>

theorem run_tree_store_env_counterexample:
  "fst (TaskRunTreeStoreEnv u0 (task_for pass_code) sh0) = Inr (Some ''undefined'')
   \<and> run_snippet (task_for (assign ''x'' (PyStr ''undefined''))) Map.empty
       = Inr [''x'' \<mapsto> PyStr ''undefined'']
   \<and> fst (TaskRunTreeStoreEnv u0 (task_for (assign ''x'' (PyStr ''undefined''))) sh0)
       = Inr (Some ''undefined'')
   \<and> new_env u0 (task_for pass_code) sh_x = Inr [''x'' \<mapsto> PyInt 3]
   \<and> run_snippet (task_for pass_code) [''x'' \<mapsto> PyInt 3] = Inr [''x'' \<mapsto> PyInt 3]
   \<and> fst (TaskRunTreeStoreEnv u0 (task_for pass_code) sh_x) = Inr (Some ''3'')
   \<and> run_snippet (task_for (assign ''x'' mute)) Map.empty = Inr [''x'' \<mapsto> mute]
   \<and> fst (TaskRunTreeStoreEnv u0 (task_for (assign ''x'' mute)) sh0) = Inl (Exception ''no text'')"
proof -
  have s: "py_str (PyInt 3) = Inr ''3''" by code_simp
  show ?thesis
    by (simp add: TaskRunTreeStoreEnv_def new_env_def run_snippet_def u0_def task_for_def
      sh0_def sh_x_def get_env_def assign_def pass_code_def mute_def s del: py_str.simps(3))
qed

section \<open>Properties of get_signature\<close>


lemma split_dot_nodot: "CHR ''.'' \<notin> set a \<Longrightarrow> split_dot a = [a]"
  by (induction a) auto

lemma split_dot_method:
  "CHR ''.'' \<notin> set a \<Longrightarrow> split_dot (a @ CHR ''.'' # b) = a # split_dot b"
  by (induction a) auto

text \<open>
  C6, as amended.  When no signature is passed and \<^verbatim>\<open>mapped_name\<close> evaluates to an object
  in the environment, \<^verbatim>\<open>get_signature\<close> resolves in this order.  If the call's name has an
  entry in the manual table, that entry is used, whatever introspection of the object
  would give.  Otherwise, if \<^verbatim>\<open>mapped_name\<close> has a dot, the name with its first component
  replaced by the name of the type of the object it evaluates to (\<^verbatim>\<open>type(obj).method\<close> for
  \<^verbatim>\<open>obj.method\<close>) is looked up in the manual table.  Only when both lookups fail is the
  object introspected, and a failure of that is a \<^verbatim>\<open>ValueError\<close>.
\<close>

theorem get_signature_order:
  assumes "eval_py rt mapped_name env = Inr f"
  shows "(\<forall>p. manual_sigs nm = Some p \<longrightarrow>
            get_signature rt nm mapped_name NoSignature manual_sigs env = Inr (Signature p))
    \<and> (\<forall>g p. manual_sigs nm = None \<and> CHR ''.'' \<in> set mapped_name
            \<and> generic_name rt nm env = Inr g \<and> manual_sigs g = Some p \<longrightarrow>
            get_signature rt nm mapped_name NoSignature manual_sigs env = Inr (Signature p))
    \<and> (\<forall>ob meth ty. CHR ''.'' \<notin> set ob \<and> CHR ''.'' \<notin> set meth \<and> nm = ob @ ''.'' @ meth
            \<and> eval_py rt ob env = Inr ty \<longrightarrow>
            generic_name rt nm env = Inr (type_name rt ty @ ''.'' @ meth))
    \<and> (manual_sigs nm = None
         \<and> (CHR ''.'' \<notin> set mapped_name
            \<or> (\<forall>g. generic_name rt nm env = Inr g \<longrightarrow> manual_sigs g = None)) \<longrightarrow>
            get_signature rt nm mapped_name NoSignature manual_sigs env
              = (case inspect_signature rt f of
                   Inr s \<Rightarrow> Inr s
                 | Inl e \<Rightarrow> Inl (Exception ''signature error - cannot determine signature'')))"
proof -
  have 1: "\<forall>p. manual_sigs nm = Some p \<longrightarrow>
            get_signature rt nm mapped_name NoSignature manual_sigs env = Inr (Signature p)"
    using assms by (simp add: get_signature_def manual_signature_def)
  have 2: "\<forall>g p. manual_sigs nm = None \<and> CHR ''.'' \<in> set mapped_name
            \<and> generic_name rt nm env = Inr g \<and> manual_sigs g = Some p \<longrightarrow>
            get_signature rt nm mapped_name NoSignature manual_sigs env = Inr (Signature p)"
    using assms by (simp add: get_signature_def manual_signature_def)
  have 3: "\<forall>ob meth ty. CHR ''.'' \<notin> set ob \<and> CHR ''.'' \<notin> set meth \<and> nm = ob @ ''.'' @ meth
            \<and> eval_py rt ob env = Inr ty \<longrightarrow>
            generic_name rt nm env = Inr (type_name rt ty @ ''.'' @ meth)"
    by (auto simp: generic_name_def split_dot_method split_dot_nodot)
  have 4: "manual_sigs nm = None
         \<and> (CHR ''.'' \<notin> set mapped_name
            \<or> (\<forall>g. generic_name rt nm env = Inr g \<longrightarrow> manual_sigs g = None)) \<longrightarrow>
            get_signature rt nm mapped_name NoSignature manual_sigs env
              = (case inspect_signature rt f of
                   Inr s \<Rightarrow> Inr s
                 | Inl e \<Rightarrow> Inl (Exception ''signature error - cannot determine signature''))"
    using assms
    by (auto simp: get_signature_def manual_signature_def split: sum.splits option.splits)
  show ?thesis using 1 2 3 4 by blast
qed



theorem get_signature_order_witness:
  "eval_py rt0 ''f'' [''f'' \<mapsto> 1] = Inr 1
   \<and> inspect_signature rt0 1 = Inr (Signature [''self''])
   \<and> get_signature rt0 ''f'' ''f'' NoSignature manual0 [''f'' \<mapsto> 1] = Inr (Signature [''a'', ''b''])
   \<and> get_signature rt0 ''xs.append'' ''xs.append'' NoSignature manual0
        [''xs.append'' \<mapsto> 2, ''xs'' \<mapsto> 3] = Inr (Signature [''object''])
   \<and> get_signature rt0 ''g'' ''g'' NoSignature manual0 [''g'' \<mapsto> 4] = Inr (Signature [''self''])"
proof -
  have e1: "eval_py rt0 ''f'' [''f'' \<mapsto> 1] = Inr 1"
    and e2: "eval_py rt0 ''xs.append'' [''xs.append'' \<mapsto> 2, ''xs'' \<mapsto> 3] = Inr 2"
    and e3: "eval_py rt0 ''g'' [''g'' \<mapsto> 4] = Inr 4"
    and e4: "eval_py rt0 ''xs'' [''xs.append'' \<mapsto> 2, ''xs'' \<mapsto> 3] = Inr 3"
    by (simp_all add: rt0_def)
  have i: "inspect_signature rt0 ob = Inr (Signature [''self''])" "type_name rt0 ob = ''list''" for ob
    by (simp_all add: rt0_def)
  have m: "manual0 ''f'' = Some [''a'', ''b'']" "manual0 ''xs.append'' = None"
    "manual0 ''list.append'' = Some [''object'']" "manual0 ''g'' = None"
    by (simp_all add: manual0_def)
  have d: "CHR ''.'' \<in> set ''xs.append''" "CHR ''.'' \<notin> set ''xs''" "CHR ''.'' \<notin> set ''append''"
    "CHR ''.'' \<notin> set ''g''"
    by simp_all
  have n: "''xs.append'' = ''xs'' @ ''.'' @ ''append''" by simp
  note T1 = get_signature_order[OF e1, where nm = "''f''" and manual_sigs = manual0]
  note T2 = get_signature_order[OF e2, where nm = "''xs.append''" and manual_sigs = manual0]
  note T3 = get_signature_order[OF e3, where nm = "''g''" and manual_sigs = manual0]
  have r1: "get_signature rt0 ''f'' ''f'' NoSignature manual0 [''f'' \<mapsto> 1]
      = Inr (Signature [''a'', ''b''])"
    by (rule T1[THEN conjunct1, rule_format, OF m(1)])
  have g: "generic_name rt0 ''xs.append'' [''xs.append'' \<mapsto> 2, ''xs'' \<mapsto> 3]
      = Inr (type_name rt0 3 @ ''.'' @ ''append'')"
    by (rule T2[THEN conjunct2, THEN conjunct2, THEN conjunct1, rule_format,
          OF conjI[OF d(2) conjI[OF d(3) conjI[OF n e4]]]])
  have g': "generic_name rt0 ''xs.append'' [''xs.append'' \<mapsto> 2, ''xs'' \<mapsto> 3]
      = Inr ''list.append''"
    using g by (simp add: i)
  have r2: "get_signature rt0 ''xs.append'' ''xs.append'' NoSignature manual0
        [''xs.append'' \<mapsto> 2, ''xs'' \<mapsto> 3] = Inr (Signature [''object''])"
    by (rule T2[THEN conjunct2, THEN conjunct1, rule_format,
          OF conjI[OF m(2) conjI[OF d(1) conjI[OF g' m(3)]]]])
  have r3: "get_signature rt0 ''g'' ''g'' NoSignature manual0 [''g'' \<mapsto> 4]
      = (case inspect_signature rt0 4 of Inr s \<Rightarrow> Inr s
         | Inl e \<Rightarrow> Inl (Exception ''signature error - cannot determine signature''))"
    by (rule T3[THEN conjunct2, THEN conjunct2, THEN conjunct2, rule_format,
          OF conjI[OF m(4) disjI1[OF d(4)]]])
  show ?thesis
    using e1 i(1)[of 1] r1 r2 r3 by (simp add: i)
qed

text \<open>
  C6 as it is stated fails: the name has an entry in the manual table, but it does not
  evaluate in the environment, and the call raises instead of using the entry.
\<close>

theorem get_signature_counterexample:
  "manual0 ''f'' = Some [''a'', ''b'']
   \<and> eval_py rt0 ''f'' Map.empty = Inl (Exception ''NameError'')
   \<and> get_signature rt0 ''f'' ''f'' NoSignature manual0 Map.empty
       = Inl (Exception ''f() was not found.'')
   \<and> TaskGetSignature rt0 ''f'' ''f'' NoSignature manual0 Map.empty = None"
  by (simp add: manual0_def rt0_def get_signature_def TaskGetSignature_def)


section \<open>Properties of the result wrappers\<close>

lemma logged_getRepresentation:
  "getRepresentation (logged ex) conv nm (p, sent) = (r, (p', sent')) \<Longrightarrow>
     \<exists>rest. sent' = sent @ rest \<and> rest \<noteq> [] \<and> (\<forall>t\<in>set rest. is_representation_request t)"
  by (auto simp: getRepresentation_def logged_def split: prod.splits sum.splits answer.splits option.splits)



lemma staged_protocol_general:
  assumes W: "\<And>ex p. W ex p =
     (case ex p t0 of
        (Inl e, p1) \<Rightarrow> (Inl e, p1)
      | (Inr strrep, p1) \<Rightarrow>
          if strrep \<noteq> ANone
          then (case getRepresentation ex conv ''_evaluation_object_'' p1 of
                  (Inl e, p2) \<Rightarrow> (Inl e, p2)
                | (Inr bytestream, p2) \<Rightarrow> (Inr (bytestream, strrep), p2))
          else (Inr (ANone, strrep), p1))"
  shows "staged_protocol ex p t0 (W (logged ex) (p, []))"
proof -
  obtain r p1 where e: "ex p t0 = (r, p1)" by (cases "ex p t0") auto
  then have le: "logged ex (p, []) t0 = (r, (p1, [t0]))" by (simp add: logged_def)
  show ?thesis
  proof (cases r)
    case (Inl x)
    then show ?thesis using e le by (simp add: W staged_protocol_def)
  next
    case (Inr s)
    show ?thesis
    proof (cases "s = ANone")
      case True
      then show ?thesis using e le Inr by (simp add: W staged_protocol_def)
    next
      case False
      obtain r2 p2 sent where g:
        "getRepresentation (logged ex) conv ''_evaluation_object_'' (p1, [t0]) = (r2, (p2, sent))"
        by (cases "getRepresentation (logged ex) conv ''_evaluation_object_'' (p1, [t0])") auto
      from logged_getRepresentation[OF g] obtain rest where
        rest: "sent = [t0] @ rest" "\<forall>t\<in>set rest. is_representation_request t" by auto
      show ?thesis using e le Inr False g rest
        by (cases r2) (auto simp: W staged_protocol_def)
    qed
  qed
qed

text \<open>
  C10.  For every process and every call of \<^verbatim>\<open>getResultInProcess\<close>,
  \<^verbatim>\<open>getFunctionCallResultInProcess\<close> or \<^verbatim>\<open>getTreeResultInProcess\<close>: in the pair returned the
  byte stream is \<^verbatim>\<open>None\<close> whenever the string is \<^verbatim>\<open>None\<close>, and the process is asked for a
  representation of the staged value (its class, a conversion, its stream) only after
  it has answered the first task with something other than \<^verbatim>\<open>None\<close>.
\<close>

theorem staged_results_protocol:
  "staged_protocol ex p (TaskGetResult ''_evaluation_object_'' kw)
      (getResultInProcess (logged ex) conv kw (p, []))
   \<and> staged_protocol ex p (TaskGetFunctionCallResult ''_evaluation_object_'' kw)
      (getFunctionCallResultInProcess (logged ex) conv kw (p, []))
   \<and> staged_protocol ex p (TaskGetTreeResult ''_evaluation_object_'' kw)
      (getTreeResultInProcess (logged ex) conv kw (p, []))"
proof (intro conjI)
  show "staged_protocol ex p (TaskGetResult ''_evaluation_object_'' kw)
      (getResultInProcess (logged ex) conv kw (p, []))"
    by (rule staged_protocol_general[where W = "\<lambda>ex. getResultInProcess ex conv kw"])
       (simp add: getResultInProcess_def)
  show "staged_protocol ex p (TaskGetFunctionCallResult ''_evaluation_object_'' kw)
      (getFunctionCallResultInProcess (logged ex) conv kw (p, []))"
    by (rule staged_protocol_general[where W = "\<lambda>ex. getFunctionCallResultInProcess ex conv kw"])
       (simp add: getFunctionCallResultInProcess_def)
  show "staged_protocol ex p (TaskGetTreeResult ''_evaluation_object_'' kw)
      (getTreeResultInProcess (logged ex) conv kw (p, []))"
    by (rule staged_protocol_general[where W = "\<lambda>ex. getTreeResultInProcess ex conv kw"])
       (simp add: getTreeResultInProcess_def)
qed

theorem staged_results_protocol_witness:
  "getResultInProcess (logged ex0) Map.empty True (0, [])
     = (Inr (ABytes ''pickled'', AStr ''5''),
        (3, [TaskGetResult ''_evaluation_object_'' True, TaskGetClass ''_evaluation_object_'',
             TaskGetStream ''_evaluation_object_'']))
   \<and> getResultInProcess (logged ex0) Map.empty False (0, [])
     = (Inr (ANone, ANone), (1, [TaskGetResult ''_evaluation_object_'' False]))
   \<and> staged_protocol ex0 0 (TaskGetResult ''_evaluation_object_'' False)
       (Inr (ANone, ANone), (1, [TaskGetResult ''_evaluation_object_'' False]))"
proof -
  have a: "getResultInProcess (logged ex0) Map.empty True (0, [])
     = (Inr (ABytes ''pickled'', AStr ''5''),
        (3, [TaskGetResult ''_evaluation_object_'' True, TaskGetClass ''_evaluation_object_'',
             TaskGetStream ''_evaluation_object_'']))"
    by (simp add: getResultInProcess_def getRepresentation_def logged_def ex0_def numeral_3_eq_3)
  have b: "getResultInProcess (logged ex0) Map.empty False (0, [])
     = (Inr (ANone, ANone), (1, [TaskGetResult ''_evaluation_object_'' False]))"
    by (simp add: getResultInProcess_def getRepresentation_def logged_def ex0_def)
  show ?thesis
    using staged_results_protocol[of ex0 0 False Map.empty] a b by simp
qed


section \<open>Properties of the worker process\<close>

lemma loop_body_reply:
  "loop_body t sh q =
     (case reply t sh of Inl e \<Rightarrow> Inl e | Inr a \<Rightarrow> Inr (snd (call_task t sh), q @ [a]))"
  by (cases "call_task t sh"; cases "fst (call_task t sh)")
     (auto simp: loop_body_def CaptureErrors_def put_nowait_def reply_def split: sum.splits)

lemma run_loop_contains_error:
  assumes "call_task t sh = (Inl e, sh')" and "exn_str e = Inr payload"
  shows "run_loop sh (t # post) q = run_loop sh' post (q @ [ABackendErrors [payload]])"
proof -
  have "\<not> is_kill t" using assms(1) by (cases t) auto
  then show ?thesis using assms by (simp add: loop_body_reply reply_def)
qed

lemma run_loop_str_raises:
  assumes "call_task t sh = (Inl e, sh')" and "exn_str e = Inl e'"
  shows "run_loop sh (t # post) q = (Crashed e', sh, q)"
  using assms by (simp add: loop_body_reply reply_def)

lemma run_loop_answers_value:
  assumes "call_task t sh = (Inr a, sh')"
  shows "run_loop sh (t # post) q =
           (if is_kill t then (Returned, sh', q @ [a]) else run_loop sh' post (q @ [a]))"
  using assms by (simp add: loop_body_reply reply_def)

text \<open>
  C7.  The claim is that a task whose call raises is answered with a backend-error
  entry and that the loop goes on.  That is what the loop does when \<^verbatim>\<open>str\<close> of the
  exception returns (lemma \<open>run_loop_contains_error\<close>).  It is not what it does for an
  exception whose \<^verbatim>\<open>__str__\<close> raises: the second of four tasks raises one, and the loop
  ends with the exception that \<^verbatim>\<open>str\<close> raised, having answered the first task only; the
  same tasks with a printable exception are all answered.
\<close>

theorem worker_str_failure_escapes:
  "call_task mute_task 1 = (Inl (Unprintable True (Exception ''no text'')), 2)
   \<and> exn_str (Unprintable True (Exception ''no text'')) = Inl (Exception ''no text'')
   \<and> WorkerProcess_run 0 [ok_task, mute_task, ok_task, TaskKillProcess]
       = (Crashed (Exception ''no text''), 1, [AStr ''ok''])
   \<and> WorkerProcess_run 0 [ok_task, boom_task, ok_task, TaskKillProcess]
       = (Returned, 3, [AStr ''ok'', ABackendErrors [''boom''], AStr ''ok'', ANone])"
proof -
  have ok: "call_task ok_task n = (Inr (AStr ''ok''), Suc n)" "\<not> is_kill ok_task" for n
    by (simp_all add: ok_task_def)
  have mute: "call_task mute_task n = (Inl (Unprintable True (Exception ''no text'')), Suc n)" for n
    by (simp add: mute_task_def)
  have boom: "call_task boom_task n = (Inl (Exception ''boom''), Suc n)" for n
    by (simp add: boom_task_def)
  have kill: "call_task TaskKillProcess (n::nat) = (Inr ANone, n)" for n by simp
  have 1: "call_task mute_task 1 = (Inl (Unprintable True (Exception ''no text'')), 2)"
    using mute[of 1] by simp
  have 2: "WorkerProcess_run 0 [ok_task, mute_task, ok_task, TaskKillProcess]
       = (Crashed (Exception ''no text''), 1, [AStr ''ok''])"
    unfolding WorkerProcess_run_def
    by (simp add: run_loop_answers_value[OF ok(1)] ok(2) run_loop_str_raises[OF mute]
        del: run_loop.simps(2))
  have 3: "WorkerProcess_run 0 [ok_task, boom_task, ok_task, TaskKillProcess]
       = (Returned, 3, [AStr ''ok'', ABackendErrors [''boom''], AStr ''ok'', ANone])"
    unfolding WorkerProcess_run_def
    by (simp add: run_loop_answers_value[OF ok(1)] ok(2) run_loop_contains_error[OF boom]
        run_loop_answers_value[OF kill] numeral_3_eq_3 del: run_loop.simps(2))
  show ?thesis using 1 2 3 by simp
qed

lemma kill_cases:
  "kill fate self w =
     (if alive w self \<and> fate self = Hangs then (Blocked, w)
      else if alive w self \<and> fate self = Survives then (Raised (Exception []), w)
      else (Done (), w\<lparr>alive := (alive w)(self := False),
                        instances := remove1 self (instances w)\<rparr>))"
  by (cases "fate self") (auto simp: kill_def remove1_idem fun_eq_iff intro!: world.equality)

text \<open>
  C2, as amended.  \<^verbatim>\<open>kill\<close> returns when the process is not alive, or is alive, answers
  the shutdown task and is gone after the bounded wait; whenever \<^verbatim>\<open>kill\<close> returns, the
  instance is no longer in the registry and is not alive, and a second \<^verbatim>\<open>kill\<close> returns
  and changes nothing.  When the process is still alive after the wait, \<^verbatim>\<open>kill\<close> raises
  and the registry is as it was.
\<close>

theorem kill_deregisters_when_done:
  assumes "distinct (instances w)"
  shows "(\<forall>w'. kill fate self w = (Done (), w') \<longrightarrow>
            self \<notin> set (instances w') \<and> \<not> alive w' self
            \<and> instances w' = remove1 self (instances w)
            \<and> kill fate self w' = (Done (), w'))
    \<and> (\<not> alive w self \<or> fate self = Dies \<longrightarrow> (\<exists>w'. kill fate self w = (Done (), w')))
    \<and> (alive w self \<and> fate self = Survives \<longrightarrow> kill fate self w = (Raised (Exception []), w))
    \<and> (alive w self \<and> fate self = Hangs \<longrightarrow> kill fate self w = (Blocked, w))"
proof -
  let ?w' = "w\<lparr>alive := (alive w)(self := False), instances := remove1 self (instances w)\<rparr>"
  have idem: "kill fate self ?w' = (Done (), ?w')"
    by (simp add: kill_cases[of fate self ?w'] remove1_idem assms)
  have gone: "self \<notin> set (instances ?w')" "\<not> alive ?w' self"
    "instances ?w' = remove1 self (instances w)"
    using assms by simp_all
  have 1: "\<forall>w'. kill fate self w = (Done (), w') \<longrightarrow>
            self \<notin> set (instances w') \<and> \<not> alive w' self
            \<and> instances w' = remove1 self (instances w)
            \<and> kill fate self w' = (Done (), w')"
    using idem gone by (auto simp: kill_cases[of fate self w] split: if_splits)
  have 2: "\<not> alive w self \<or> fate self = Dies \<longrightarrow> (\<exists>w'. kill fate self w = (Done (), w'))"
    by (auto simp: kill_cases[of fate self w])
  have 3: "alive w self \<and> fate self = Survives \<longrightarrow> kill fate self w = (Raised (Exception []), w)"
    by (auto simp: kill_cases[of fate self w])
  have 4: "alive w self \<and> fate self = Hangs \<longrightarrow> kill fate self w = (Blocked, w)"
    by (auto simp: kill_cases[of fate self w])
  show ?thesis using 1 2 3 4 by blast
qed

theorem kill_deregisters_when_done_witness:
  "distinct (instances w0) \<and> alive w0 7
   \<and> kill (\<lambda>i. Dies) 7 w0 = (Done (), w0\<lparr>alive := (\<lambda>i. False), instances := []\<rparr>)
   \<and> kill (\<lambda>i. Dies) 7 (w0\<lparr>alive := (\<lambda>i. False), instances := []\<rparr>)
       = (Done (), w0\<lparr>alive := (\<lambda>i. False), instances := []\<rparr>)"
proof -
  have d: "distinct (instances w0)" by (simp add: w0_def)
  have a: "alive w0 7" by (simp add: w0_def)
  have k: "kill (\<lambda>i. Dies) 7 w0 = (Done (), w0\<lparr>alive := (\<lambda>i. False), instances := []\<rparr>)"
    by (auto simp: kill_def w0_def fun_eq_iff intro!: world.equality)
  show ?thesis
    using kill_deregisters_when_done[OF d, of "\<lambda>i. Dies" 7] d a k by simp
qed

text \<open>
  C2 as it is stated fails: a registered worker that outlives the wait makes \<^verbatim>\<open>kill\<close>
  raise before the registry is touched, and the worker stays registered.
\<close>

theorem kill_leaves_registered_counterexample:
  "alive w0 7 \<and> 7 \<in> set (instances w0)
   \<and> kill (\<lambda>i. Survives) 7 w0 = (Raised (Exception []), w0)
   \<and> kill_all (\<lambda>i. Survives) w0 = (Raised (Exception []), w0)"
  by (simp add: kill_def kill_all_def w0_def)

section \<open>Properties of the orchestrator\<close>

lemma executeTask_capture:
  "run_code py src user = (Inr (out, err), user') \<Longrightarrow>
   executeTask (TaskCaptureOutput py src) user = Done (ACaptured out err, user')"
  by (simp add: executeTask_def loop_body_reply reply_def TaskCaptureOutput_def)

lemma run_single_process_simple:
  assumes "fst (run_code py pec Map.empty) = Inr a"
    and "fst (run_code py src (after_pec py pec)) = Inr (out, err)"
  shows "run_single_process py be randint pec src None ''simple'' w =
     (Done (simple_process py pec src (cwd w) (randint (draws w)) (next_obj w), out, err),
      w\<lparr>instances := instances w @ [next_obj w], next_obj := Suc (next_obj w),
        draws := Suc (draws w), alive := (alive w)(next_obj w := True)\<rparr>)"
proof -
  obtain o1 e1 where a: "a = (o1, e1)" by (cases a) auto
  have 1: "run_code py pec Map.empty = (Inr (o1, e1), after_pec py pec)"
    using assms(1) a by (simp add: after_pec_def prod_eq_iff)
  have 2: "run_code py src (after_pec py pec)
      = (Inr (out, err), snd (run_code py src (after_pec py pec)))"
    using assms(2) by (simp add: prod_eq_iff)
  show ?thesis
    by (simp add: run_single_process_def start_worker_def new_identity_def Let_def
        capture_both_def executeTask_capture[OF 1] executeTask_capture[OF 2] simple_process_def)
qed

lemma run_exercise_simple:
  assumes "dirs w sol_wd" "dirs w stu_wd" "dirs w (cwd w)"
    and "fst (run_code py pec Map.empty) = Inr a"
    and "fst (run_code py sol (after_pec py pec)) = Inr (sol_out, sol_err)"
    and "fst (run_code py stu (after_pec py pec)) = Inr (out, err)"
  shows "run_exercise py be randint pec sol stu (Some sol_wd) (Some stu_wd) None ''simple'' w =
     (Done (simple_process py pec sol sol_wd (randint (draws w)) (next_obj w),
            simple_process py pec stu stu_wd (randint (Suc (draws w))) (Suc (next_obj w)),
            out, err),
      w\<lparr>instances := instances w @ [next_obj w, Suc (next_obj w)],
        next_obj := Suc (Suc (next_obj w)), draws := Suc (Suc (draws w)),
        alive := (alive w)(next_obj w := True, Suc (next_obj w) := True)\<rparr>)"
  using assms(1-3)
  by (simp add: run_exercise_def ChDir_def chdir_def Let_def
      run_single_process_simple[OF assms(4) assms(5)] run_single_process_simple[OF assms(4) assms(6)])

text \<open>
  The last statement of \<^verbatim>\<open>run\<close> calls \<^verbatim>\<open>to_child\<close> with keywords it does not have, so
  \<^verbatim>\<open>run\<close> returns no State, whatever it is given.
\<close>

lemma run_never_returns:
  "fst (run py be randint Path state rel soldir w) \<noteq> Done kw"
  by (cases "run_arguments py be randint Path state rel soldir w";
      cases "fst (run_arguments py be randint Path state rel soldir w)")
     (auto simp: run_def run_keywords_def to_child_parameters_def)

lemma Path0_values:
  "Path0 [''/home/repl'', ''solution'', []] = ''/home/repl/solution''"
  "Path0 [''/home/repl'', []] = ''/home/repl''"
  by (simp_all add: Path0_def)

lemma run_arguments_example:
  "fst (run_arguments py0 be0 (\<lambda>n. n) Path0 s2 [] ''solution'' w0)
       = Done \<lparr>kw_student_process = simple_process py0 [] ''print'' ''/home/repl'' 1 9,
               kw_solution_process = simple_process py0 [] ''raise'' ''/home/repl/solution'' 0 8,
               kw_raw_student_output = ''hi'',
               kw_reporter = Reporter 0 []\<rparr>"
proof -
  have c: "cwd w0 = ''/home/repl''" "next_obj w0 = 8" "draws w0 = 0"
    by (simp_all add: w0_def)
  have s: "student_code (attrs s2) = ''print''" "solution_code (attrs s2) = ''raise''"
    "reporter (attrs s2) = 0"
    by (simp_all add: s2_def s0_def)
  have a: "after_pec py0 [] = Map.empty"
    by (simp add: after_pec_def run_code_def py0_def)
  have d: "dirs (w0\<lparr>dirs := (dirs w0)(''/home/repl/solution'' := True)\<rparr>) ''/home/repl/solution''"
    "dirs (w0\<lparr>dirs := (dirs w0)(''/home/repl/solution'' := True)\<rparr>) ''/home/repl''"
    "dirs (w0\<lparr>dirs := (dirs w0)(''/home/repl/solution'' := True)\<rparr>)
       (cwd (w0\<lparr>dirs := (dirs w0)(''/home/repl/solution'' := True)\<rparr>))"
    by (simp_all add: w0_def)
  have r: "fst (run_code py0 [] Map.empty) = Inr ([], None)"
    "fst (run_code py0 ''raise'' (after_pec py0 [])) = Inr ([], Some ''failed'')"
    "fst (run_code py0 ''print'' (after_pec py0 [])) = Inr (''hi'', None)"
    by (simp_all add: a run_code_def py0_def)
  note re = run_exercise_simple[OF d r, where be = be0 and randint = "\<lambda>n. n"]
  show ?thesis
    by (simp add: run_arguments_def Let_def s c Path0_values re)
qed

text \<open>
  C4.  The claim is that \<^verbatim>\<open>run\<close> returns a derived State with both processes, the
  student's output and the student's failure, and that a failure of the solution is
  fatal.  Here the solution program raises and the student program prints a line:
  \<^verbatim>\<open>run\<close> runs both, each in a worker of its own, builds a reporter without errors, and
  then raises \<^verbatim>\<open>TypeError\<close> at the call of \<^verbatim>\<open>to_child\<close>; no State is returned.
\<close>

theorem run_raises_at_to_child:
  "raised (py0 (solution_code (attrs s2)) Map.empty) = Some (Exception ''failed'')
   \<and> fst (run_arguments py0 be0 (\<lambda>n. n) Path0 s2 [] ''solution'' w0)
       = Done \<lparr>kw_student_process = simple_process py0 [] ''print'' ''/home/repl'' 1 9,
               kw_solution_process = simple_process py0 [] ''raise'' ''/home/repl/solution'' 0 8,
               kw_raw_student_output = ''hi'',
               kw_reporter = Reporter 0 []\<rparr>
   \<and> fst (run py0 be0 (\<lambda>n. n) Path0 s2 [] ''solution'' w0)
       = Raised (Exception ''to_child() got an unexpected keyword argument student_process'')"
proof -
  have 1: "raised (py0 (solution_code (attrs s2)) Map.empty) = Some (Exception ''failed'')"
    by (simp add: s2_def s0_def py0_def)
  obtain kw w' where k: "run_arguments py0 be0 (\<lambda>n. n) Path0 s2 [] ''solution'' w0 = (Done kw, w')"
    using run_arguments_example
    by (cases "run_arguments py0 be0 (\<lambda>n. n) Path0 s2 [] ''solution'' w0") auto
  have 3: "fst (run py0 be0 (\<lambda>n. n) Path0 s2 [] ''solution'' w0)
       = Raised (Exception ''to_child() got an unexpected keyword argument student_process'')"
    by (simp add: run_def k run_keywords_def to_child_parameters_def)
  show ?thesis using 1 run_arguments_example 3 by simp
qed

end
